theory Spec2Isabelle
  imports Main "HOL-Library.Sublist"
begin

section \<open>Python values, exceptions and string helpers\<close>

text \<open>
  The Python values that flow through the checkpoint, streaming and recovery code:
  \<open>None\<close>, booleans, unbounded integers, strings and dictionaries with string keys.
  A dictionary is an association list read with \<open>map_of\<close>. Strings are ASCII, as the
  batch identifier wire format is.
\<close>

datatype pyval =
    PNone
  | PBool bool
  | PInt int
  | PStr string
  | PDict "(string \<times> pyval) list"

type_synonym pydict = "(string \<times> pyval) list"

text \<open>Every exception the modelled code raises or receives, with its message.\<close>

datatype exn =
    ValueError string
  | CorruptCheckpointError string
  | ConflictError string
  | BatchNotFoundError string
  | DatabaseUnavailableError string
  | TypeError string
  | AttributeError string
  | KeyError string
  | IntegrityError string
  | ProgrammingError string
  | OverflowError string
  | PyException string

text \<open>\<open>str(e)\<close>: the message (for \<open>KeyError\<close> the constructor argument is the
  already quoted key).\<close>

fun str_exn :: "exn \<Rightarrow> string" where
  "str_exn (ValueError m) = m"
| "str_exn (CorruptCheckpointError m) = m"
| "str_exn (ConflictError m) = m"
| "str_exn (BatchNotFoundError m) = m"
| "str_exn (DatabaseUnavailableError m) = m"
| "str_exn (TypeError m) = m"
| "str_exn (AttributeError m) = m"
| "str_exn (KeyError m) = m"
| "str_exn (IntegrityError m) = m"
| "str_exn (ProgrammingError m) = m"
| "str_exn (OverflowError m) = m"
| "str_exn (PyException m) = m"

text \<open>Truth value of a Python object, as \<open>if x:\<close> and \<open>not x\<close> test it.\<close>

fun py_truthy :: "pyval \<Rightarrow> bool" where
  "py_truthy PNone = False"
| "py_truthy (PBool b) = b"
| "py_truthy (PInt n) = (n \<noteq> 0)"
| "py_truthy (PStr s) = (s \<noteq> [])"
| "py_truthy (PDict d) = (d \<noteq> [])"

fun py_type_name :: "pyval \<Rightarrow> string" where
  "py_type_name PNone = ''NoneType''"
| "py_type_name (PBool b) = ''bool''"
| "py_type_name (PInt n) = ''int''"
| "py_type_name (PStr s) = ''str''"
| "py_type_name (PDict d) = ''dict''"

definition no_attribute :: "pyval \<Rightarrow> string \<Rightarrow> exn" where
  "no_attribute v a =
     AttributeError ([CHR 0x27] @ py_type_name v @ [CHR 0x27] @ '' object has no attribute ''
                     @ [CHR 0x27] @ a @ [CHR 0x27])"

text \<open>\<open>isinstance(v, int)\<close> holds for integers and booleans; the value is then an
  integer (\<open>True\<close> is 1).\<close>

fun py_as_int :: "pyval \<Rightarrow> int option" where
  "py_as_int (PInt n) = Some n"
| "py_as_int (PBool b) = Some (if b then 1 else 0)"
| "py_as_int v = None"

text \<open>\<open>v < 0\<close>: defined on numbers, a \<open>TypeError\<close> otherwise.\<close>

definition py_lt_zero :: "pyval \<Rightarrow> exn + bool" where
  "py_lt_zero v =
     (case py_as_int v of
        Some n \<Rightarrow> Inr (n < 0)
      | None \<Rightarrow> Inl (TypeError ([CHR 0x27] @ ''<'' @ [CHR 0x27]
                   @ '' not supported between instances of '' @ [CHR 0x27] @ py_type_name v
                   @ [CHR 0x27] @ '' and '' @ [CHR 0x27] @ ''int'' @ [CHR 0x27])))"

subsection \<open>Strings\<close>

definition is_ascii_digit :: "char \<Rightarrow> bool" where
  "is_ascii_digit c = (48 \<le> (of_char c :: nat) \<and> (of_char c :: nat) \<le> 57)"

text \<open>\<open>str.isdigit()\<close> on an ASCII string: non-empty and all decimal digits.\<close>

definition isdigit :: "string \<Rightarrow> bool" where
  "isdigit s = (s \<noteq> [] \<and> list_all is_ascii_digit s)"

definition digit_val :: "char \<Rightarrow> nat" where
  "digit_val c = of_char c - 48"

text \<open>The interpreter's limit on conversions between integers and decimal text (CPython
  3.11 and later, 4300 digits unless reconfigured): beyond it \<open>int(s)\<close>, \<open>str(n)\<close> and the
  format type \<open>d\<close> raise \<open>ValueError\<close>.\<close>

definition max_str_digits :: nat where
  "max_str_digits = 4300"

definition decimal_value :: "string \<Rightarrow> nat" where
  "decimal_value s = foldl (\<lambda>a c. 10 * a + digit_val c) 0 s"

text \<open>\<open>int(s)\<close> as the code uses it, on a string that passed \<open>isdigit\<close>; \<open>None\<close>
  stands for the \<open>ValueError\<close> the callers catch, raised when the string has more digits
  (leading zeros included) than the limit.\<close>

definition py_int :: "string \<Rightarrow> int option" where
  "py_int s =
     (if isdigit s \<and> length s \<le> max_str_digits then Some (int (decimal_value s)) else None)"

definition digit_char :: "nat \<Rightarrow> char" where
  "digit_char n = char_of (48 + n mod 10)"

fun str_nat :: "nat \<Rightarrow> string" where
  "str_nat n = (if n < 10 then [digit_char n] else str_nat (n div 10) @ [digit_char n])"

declare str_nat.simps [simp del]

definition zfill :: "nat \<Rightarrow> string \<Rightarrow> string" where
  "zfill w s = replicate (w - length s) (CHR ''0'') @ s"

text \<open>\<open>str(n)\<close> of an integer within the limit.\<close>

definition str_int :: "int \<Rightarrow> string" where
  "str_int n = (if n < 0 then ''-'' @ str_nat (nat (- n)) else str_nat (nat n))"

text \<open>The format specification \<open>{n:03d}\<close>: decimal, sign-aware zero padding to width 3;
  \<open>None\<close> stands for the \<open>ValueError\<close> raised when the number has more digits than the
  limit.\<close>

definition format_03d :: "int \<Rightarrow> string option" where
  "format_03d n =
     (if max_str_digits < length (str_nat (nat \<bar>n\<bar>)) then None
      else Some (if n < 0 then ''-'' @ zfill 2 (str_nat (nat (- n))) else zfill 3 (str_nat (nat n))))"

text \<open>\<open>s.split(sep)\<close> for a non-empty separator (both call sites pass a literal):
  left-to-right, non-overlapping occurrences.\<close>

function split_acc :: "string \<Rightarrow> string \<Rightarrow> string \<Rightarrow> string list" where
  "split_acc sep acc [] = [rev acc]"
| "split_acc sep acc (c # cs) =
     (if sep \<noteq> [] \<and> prefix sep (c # cs)
      then rev acc # split_acc sep [] (drop (length sep) (c # cs))
      else split_acc sep (c # acc) cs)"
  by pat_completeness auto
termination
  by (relation "measure (\<lambda>(sep, acc, s). length s)") auto

definition py_split :: "string \<Rightarrow> string \<Rightarrow> string list" where
  "py_split s sep = split_acc sep [] s"

fun lower_char :: "char \<Rightarrow> char" where
  "lower_char c =
     (if 65 \<le> (of_char c :: nat) \<and> (of_char c :: nat) \<le> 90 then char_of ((of_char c :: nat) + 32) else c)"

definition py_lower :: "string \<Rightarrow> string" where
  "py_lower s = map lower_char s"

text \<open>\<open>sub in s\<close> on strings.\<close>

fun py_contains :: "string \<Rightarrow> string \<Rightarrow> bool" where
  "py_contains sub [] = (sub = [])"
| "py_contains sub (c # cs) = (prefix sub (c # cs) \<or> py_contains sub cs)"

section \<open>checkpoint.py: data classes\<close>

record Checkpoint =
  cp_last_batch_id :: string
  cp_total_persisted :: int
  cp_status :: string
  cp_timestamp :: string
  cp_db_count_matches :: bool

text \<open>\<open>Checkpoint.to_dict\<close>; the timestamp is carried as its ISO text.\<close>

definition to_dict :: "Checkpoint \<Rightarrow> pydict" where
  "to_dict cp =
     [(''last_batch_id'', PStr (cp_last_batch_id cp)),
      (''total_persisted'', PInt (cp_total_persisted cp)),
      (''status'', PStr (cp_status cp)),
      (''timestamp'', PStr (cp_timestamp cp)),
      (''db_count_matches'', PBool (cp_db_count_matches cp))]"

record RecoveryPoint =
  rp_last_batch_id :: pyval
  rp_total_persisted :: pyval
  rp_can_resume :: bool

text \<open>The constructor with \<open>__post_init__\<close>: a missing \<open>can_resume\<close> is derived.\<close>

definition RecoveryPoint_init :: "pyval \<Rightarrow> pyval \<Rightarrow> bool option \<Rightarrow> RecoveryPoint" where
  "RecoveryPoint_init last_batch_id total_persisted can_resume =
     \<lparr> rp_last_batch_id = last_batch_id,
       rp_total_persisted = total_persisted,
       rp_can_resume = (case can_resume of None \<Rightarrow> last_batch_id \<noteq> PNone | Some b \<Rightarrow> b) \<rparr>"

text \<open>The property \<open>RecoveryPoint.resume_from\<close>. A \<open>ValueError\<close> of \<open>int\<close> or of the
  formatting is caught and gives \<open>None\<close>. Calling \<open>split\<close> on a value that is
  not a string raises \<open>AttributeError\<close>, which the \<open>except\<close> clause does not catch.\<close>

definition resume_from :: "RecoveryPoint \<Rightarrow> exn + string option" where
  "resume_from rp =
     (if \<not> py_truthy (rp_last_batch_id rp) then Inr None
      else case rp_last_batch_id rp of
        PStr b \<Rightarrow>
          (let parts = py_split b ''_'' in
           if length parts = 2 \<and> isdigit (parts ! 1)
           then (case py_int (parts ! 1) of
                   Some n \<Rightarrow>
                     (case format_03d (n + 1) of
                        Some digits \<Rightarrow> Inr (Some (''batch_'' @ digits))
                      | None \<Rightarrow> Inr None)
                 | None \<Rightarrow> Inr None)
           else Inr None)
      | v \<Rightarrow> Inl (no_attribute v ''split''))"


section \<open>The storage collaborator and the file system\<close>

text \<open>
  The components reach storage only through method calls on \<open>self.db\<close>. An operation
  takes the state of the outside world and returns either the exception it raises or its
  value, together with the state it leaves. Recovery tests \<open>hasattr\<close> for the two
  partial-batch methods, so these may be missing.
\<close>

type_synonym ('a, 's) op = "'s \<Rightarrow> (exn + 'a) \<times> 's"

record 's storage =
  check_connection :: "(bool, 's) op"
  insert_documents :: "pydict list \<Rightarrow> string \<Rightarrow> (unit, 's) op"
  commit :: "(unit, 's) op"
  get_latest_checkpoint :: "(pyval, 's) op"
  save_checkpoint :: "pydict \<Rightarrow> (unit, 's) op"
  get_document_count :: "(int, 's) op"
  has_partial_batch :: "(bool, 's) op option"
  discard_partial_batch :: "(unit, 's) op option"

text \<open>What \<open>_write_checkpoint_file\<close> asks of the operating system: write the JSON text of
  a dictionary to a path, and rename a path.\<close>

record 's filesystem =
  json_dump_to :: "string \<Rightarrow> pydict \<Rightarrow> (unit, 's) op"
  os_rename :: "string \<Rightarrow> string \<Rightarrow> (unit, 's) op"

section \<open>checkpoint.py: CheckpointManager\<close>

record 's CheckpointManager =
  cm_db :: "'s storage option"
  checkpoint_file :: "string option"
  checkpoints :: "Checkpoint list"

definition CheckpointManager_init :: "'s storage option \<Rightarrow> string option \<Rightarrow> 's CheckpointManager" where
  "CheckpointManager_init db_connection file =
     \<lparr> cm_db = db_connection, checkpoint_file = file, checkpoints = [] \<rparr>"

definition checkpoint_file_set :: "'s CheckpointManager \<Rightarrow> bool" where
  "checkpoint_file_set cm = (case checkpoint_file cm of None \<Rightarrow> False | Some f \<Rightarrow> f \<noteq> [])"

definition write_checkpoint_file ::
  "'s filesystem \<Rightarrow> 's CheckpointManager \<Rightarrow> Checkpoint \<Rightarrow> (unit, 's) op" where
  "write_checkpoint_file fs cm checkpoint s =
     (case checkpoint_file cm of
        None \<Rightarrow> (Inr (), s)
      | Some f \<Rightarrow>
          if f = [] then (Inr (), s)
          else (let temp_path = f @ ''.tmp'' in
                case json_dump_to fs temp_path (to_dict checkpoint) s of
                  (Inl e, s1) \<Rightarrow> (Inl e, s1)
                | (Inr u, s1) \<Rightarrow> os_rename fs temp_path f s1))"

text \<open>The prior cumulative value of \<open>update_checkpoint\<close> (the block under
  "Calculate cumulative count"): the amount added to \<open>persisted_count\<close>.\<close>

definition prior_cumulative :: "'s CheckpointManager \<Rightarrow> (int, 's) op" where
  "prior_cumulative cm s =
     (if checkpoints cm \<noteq> [] then (Inr (cp_total_persisted (last (checkpoints cm))), s)
      else case cm_db cm of
        None \<Rightarrow> (Inr 0, s)
      | Some d \<Rightarrow>
          (case get_latest_checkpoint d s of
             (Inl e, s1) \<Rightarrow> (Inl e, s1)
           | (Inr latest, s1) \<Rightarrow>
               if py_truthy latest
               then (case latest of
                       PDict entries \<Rightarrow>
                         (case map_of entries ''total_persisted'' of
                            None \<Rightarrow> (Inr 0, s1)
                          | Some prev_count \<Rightarrow>
                              (case py_as_int prev_count of
                                 Some n \<Rightarrow> (Inr n, s1)
                               | None \<Rightarrow> (Inr 0, s1)))
                     | v \<Rightarrow> (Inl (no_attribute v ''get''), s1))
               else (Inr 0, s1)))"

text \<open>The block "Verify against DB state if requested".\<close>

definition verify_db_count :: "'s CheckpointManager \<Rightarrow> bool \<Rightarrow> int \<Rightarrow> (bool, 's) op" where
  "verify_db_count cm verify_db_state cumulative_count s =
     (case cm_db cm of
        None \<Rightarrow> (Inr False, s)
      | Some d \<Rightarrow>
          if verify_db_state
          then (case get_document_count d s of
                  (Inl e, s1) \<Rightarrow> (Inl e, s1)
                | (Inr actual_count, s1) \<Rightarrow> (Inr (actual_count = cumulative_count), s1))
          else (Inr False, s))"

text \<open>The block "Persist to database if available", with the translation of a failure
  whose message mentions a conflict.\<close>

definition persist_to_db :: "'s CheckpointManager \<Rightarrow> Checkpoint \<Rightarrow> (unit, 's) op" where
  "persist_to_db cm checkpoint s =
     (case cm_db cm of
        None \<Rightarrow> (Inr (), s)
      | Some d \<Rightarrow>
          (case save_checkpoint d (to_dict checkpoint) s of
             (Inl e, s1) \<Rightarrow>
               if py_contains ''concurrent'' (py_lower (str_exn e))
                  \<or> py_contains ''conflict'' (py_lower (str_exn e))
               then (Inl (ConflictError ''Concurrent update detected''), s1)
               else (Inl e, s1)
           | (Inr u, s1) \<Rightarrow> (Inr (), s1)))"

text \<open>\<open>update_checkpoint\<close> returns the exception or the checkpoint, the manager as the
  call leaves it, and the state of the outside world. The argument \<open>now\<close> is the value of
  \<open>datetime.now()\<close> when the checkpoint is built.\<close>

definition update_checkpoint ::
  "'s filesystem \<Rightarrow> 's CheckpointManager \<Rightarrow> string \<Rightarrow> int \<Rightarrow> pydict option \<Rightarrow> bool \<Rightarrow> string
     \<Rightarrow> 's \<Rightarrow> (exn + Checkpoint) \<times> 's CheckpointManager \<times> 's" where
  "update_checkpoint fs cm batch_id persisted_count metadata verify_db_state now s =
     (if persisted_count < 0
      then (Inl (ValueError ''persisted_count must be non-negative''), cm, s)
      else case prior_cumulative cm s of
        (Inl e, s1) \<Rightarrow> (Inl e, cm, s1)
      | (Inr prior, s1) \<Rightarrow>
          (let cumulative_count = persisted_count + prior in
           case verify_db_count cm verify_db_state cumulative_count s1 of
             (Inl e, s2) \<Rightarrow> (Inl e, cm, s2)
           | (Inr db_count_matches, s2) \<Rightarrow>
               (let checkpoint = \<lparr> cp_last_batch_id = batch_id,
                                   cp_total_persisted = cumulative_count,
                                   cp_status = ''committed'',
                                   cp_timestamp = now,
                                   cp_db_count_matches = db_count_matches \<rparr>;
                    cm' = cm \<lparr> checkpoints := checkpoints cm @ [checkpoint] \<rparr>
                in case persist_to_db cm' checkpoint s2 of
                     (Inl e, s3) \<Rightarrow> (Inl e, cm', s3)
                   | (Inr u, s3) \<Rightarrow>
                       (case write_checkpoint_file fs cm' checkpoint s3 of
                          (Inl e, s4) \<Rightarrow> (Inl e, cm', s4)
                        | (Inr u', s4) \<Rightarrow> (Inr checkpoint, cm', s4)))))"

definition get_recovery_point :: "'s CheckpointManager \<Rightarrow> (RecoveryPoint, 's) op" where
  "get_recovery_point cm s =
     (case (case cm_db cm of
              None \<Rightarrow> (Inr PNone, s)
            | Some d \<Rightarrow> get_latest_checkpoint d s) of
        (Inl e, s1) \<Rightarrow> (Inl e, s1)
      | (Inr from_db, s1) \<Rightarrow>
          (let latest = (if from_db = PNone \<and> checkpoints cm \<noteq> []
                         then PDict (to_dict (last (checkpoints cm))) else from_db)
           in if latest = PNone then (Inr (RecoveryPoint_init PNone (PInt 0) (Some False)), s1)
              else case latest of
                PDict entries \<Rightarrow>
                  (case map_of entries ''last_batch_id'' of
                     None \<Rightarrow> (Inl (CorruptCheckpointError
                                ''Checkpoint missing required field: last_batch_id''), s1)
                   | Some last_batch_id \<Rightarrow>
                       (case map_of entries ''total_persisted'' of
                          None \<Rightarrow> (Inl (CorruptCheckpointError
                                     ''Checkpoint missing required field: total_persisted''), s1)
                        | Some total_persisted \<Rightarrow>
                            (case py_lt_zero total_persisted of
                               Inl e \<Rightarrow> (Inl e, s1)
                             | Inr negative \<Rightarrow>
                                 if negative
                                 then (Inl (CorruptCheckpointError
                                        ''Checkpoint has negative total_persisted''), s1)
                                 else (Inr (RecoveryPoint_init last_batch_id total_persisted
                                             (Some (last_batch_id \<noteq> PNone))), s1))))
              | v \<Rightarrow> (Inl (CorruptCheckpointError ''Checkpoint data is not a dictionary''), s1)))"

section \<open>streaming.py: StreamingBatchWriter\<close>

record BatchResult =
  br_success :: bool
  br_persisted_count :: int
  br_batch_id :: string
  br_checkpoint_updated :: bool
  br_error :: "string option"

record 's StreamingBatchWriter =
  w_db :: "'s storage option"
  w_checkpoint_manager :: "'s CheckpointManager option"
  batch_size :: int
  pending_batches :: "(string \<times> pyval) list"
  processed_batch_ids :: "string set"

definition StreamingBatchWriter_init ::
  "'s storage option \<Rightarrow> 's CheckpointManager option \<Rightarrow> int \<Rightarrow> 's StreamingBatchWriter" where
  "StreamingBatchWriter_init db_connection manager max_docs =
     \<lparr> w_db = db_connection, w_checkpoint_manager = manager, batch_size = max_docs,
       pending_batches = [], processed_batch_ids = {} \<rparr>"

text \<open>A document lacks a field when the key is missing or its value is \<open>None\<close>.\<close>

definition lacks_field :: "pydict \<Rightarrow> string \<Rightarrow> bool" where
  "lacks_field doc k = (map_of doc k = None \<or> map_of doc k = Some PNone)"

text \<open>The loop "Validate each document has required fields": the first offending document
  decides the exception.\<close>

fun validate_documents :: "pydict list \<Rightarrow> exn option" where
  "validate_documents [] = None"
| "validate_documents (doc # docs) =
     (if lacks_field doc ''id'' then Some (ValueError ''Document missing required field: id'')
      else if lacks_field doc ''content''
      then Some (ValueError ''Document missing required field: content'')
      else validate_documents docs)"

definition failed_batch :: "string \<Rightarrow> exn \<Rightarrow> BatchResult" where
  "failed_batch batch_id e =
     \<lparr> br_success = False, br_persisted_count = 0, br_batch_id = batch_id,
       br_checkpoint_updated = False, br_error = Some (str_exn e) \<rparr>"

definition process_batch ::
  "'s filesystem \<Rightarrow> 's StreamingBatchWriter \<Rightarrow> pydict list \<Rightarrow> string \<Rightarrow> string
     \<Rightarrow> 's \<Rightarrow> (exn + BatchResult) \<times> 's StreamingBatchWriter \<times> 's" where
  "process_batch fs w documents batch_id now s =
     (if documents = [] then (Inl (ValueError ''Batch cannot be empty''), w, s)
      else if batch_id \<in> processed_batch_ids w
      then (Inl (ValueError ''Batch ID already exists''), w, s)
      else case validate_documents documents of
        Some e \<Rightarrow> (Inl e, w, s)
      | None \<Rightarrow>
          (case (case w_db w of
                   None \<Rightarrow> (Inr (), s)
                 | Some d \<Rightarrow> insert_documents d documents batch_id s) of
             (Inl e, s1) \<Rightarrow> (Inr (failed_batch batch_id e), w, s1)
           | (Inr u, s1) \<Rightarrow>
               (case w_checkpoint_manager w of
                  None \<Rightarrow>
                    (Inr \<lparr> br_success = True, br_persisted_count = int (length documents),
                           br_batch_id = batch_id, br_checkpoint_updated = False,
                           br_error = None \<rparr>,
                     w \<lparr> processed_batch_ids := insert batch_id (processed_batch_ids w) \<rparr>, s1)
                | Some cm \<Rightarrow>
                    (case update_checkpoint fs cm batch_id (int (length documents)) None False
                            now s1 of
                       (Inl e, cm', s2) \<Rightarrow>
                         (Inr (failed_batch batch_id e),
                          w \<lparr> w_checkpoint_manager := Some cm' \<rparr>, s2)
                     | (Inr checkpoint, cm', s2) \<Rightarrow>
                         (Inr \<lparr> br_success = True,
                                br_persisted_count = int (length documents),
                                br_batch_id = batch_id, br_checkpoint_updated = True,
                                br_error = None \<rparr>,
                          w \<lparr> w_checkpoint_manager := Some cm',
                              processed_batch_ids := insert batch_id (processed_batch_ids w) \<rparr>,
                          s2)))))"

definition commit_batch ::
  "'s StreamingBatchWriter \<Rightarrow> string \<Rightarrow> 's \<Rightarrow> (exn + bool) \<times> 's StreamingBatchWriter \<times> 's" where
  "commit_batch w batch_id s =
     (if map_of (pending_batches w) batch_id = None
      then (Inl (BatchNotFoundError (''Batch '' @ batch_id @ '' not found'')), w, s)
      else case (case w_db w of None \<Rightarrow> (Inr (), s) | Some d \<Rightarrow> commit d s) of
        (Inl e, s1) \<Rightarrow> (Inl e, w, s1)
      | (Inr u, s1) \<Rightarrow>
          (Inr True,
           w \<lparr> pending_batches := filter (\<lambda>kv. fst kv \<noteq> batch_id) (pending_batches w) \<rparr>, s1))"


section \<open>recovery.py: CrashRecoveryHandler\<close>

record RecoveryResult =
  rr_success :: bool
  rr_recovered_batches :: int
  rr_resume_from :: "string option"
  rr_data_loss :: "int option"
  rr_partial_batch_discarded :: bool
  rr_error :: "string option"
  rr_can_resume :: bool

text \<open>\<open>RecoveryResult(success=False, error=msg, data_loss=None)\<close>, the other fields at
  their defaults.\<close>

definition failed_recovery :: "string \<Rightarrow> RecoveryResult" where
  "failed_recovery msg =
     \<lparr> rr_success = False, rr_recovered_batches = 0, rr_resume_from = None,
       rr_data_loss = None, rr_partial_batch_discarded = False, rr_error = Some msg,
       rr_can_resume = False \<rparr>"

record 's CrashRecoveryHandler =
  h_checkpoint_manager :: "'s CheckpointManager option"
  h_db :: "'s storage option"

fun is_CorruptCheckpointError :: "exn \<Rightarrow> bool" where
  "is_CorruptCheckpointError (CorruptCheckpointError m) = True"
| "is_CorruptCheckpointError e = False"

text \<open>The block "Calculate recovered batches".\<close>

definition recovered_batch_count :: "RecoveryPoint \<Rightarrow> exn + int" where
  "recovered_batch_count recovery_point =
     (if py_truthy (rp_last_batch_id recovery_point)
      then (case rp_last_batch_id recovery_point of
              PStr b \<Rightarrow>
                (let parts = py_split b ''_'' in
                 if length parts = 2 \<and> isdigit (parts ! 1)
                 then (case py_int (parts ! 1) of Some n \<Rightarrow> Inr n | None \<Rightarrow> Inr 0)
                 else Inr 0)
            | v \<Rightarrow> Inl (no_attribute v ''split''))
      else Inr 0)"

text \<open>The block "Check for partial batch": the value is \<open>partial_batch_discarded\<close>.\<close>

definition check_partial_batch :: "'s CrashRecoveryHandler \<Rightarrow> (bool, 's) op" where
  "check_partial_batch h s =
     (case h_db h of
        None \<Rightarrow> (Inr False, s)
      | Some d \<Rightarrow>
          (case has_partial_batch d of
             None \<Rightarrow> (Inr False, s)
           | Some has_partial \<Rightarrow>
               (case has_partial s of
                  (Inl e, s1) \<Rightarrow> (Inl e, s1)
                | (Inr partial, s1) \<Rightarrow>
                    if partial
                    then (case discard_partial_batch d of
                            None \<Rightarrow> (Inr True, s1)
                          | Some discard \<Rightarrow>
                              (case discard s1 of
                                 (Inl e, s2) \<Rightarrow> (Inl e, s2)
                               | (Inr u, s2) \<Rightarrow> (Inr True, s2)))
                    else (Inr False, s1))))"

text \<open>The body of the outer \<open>try\<close> of \<open>recover\<close>: \<open>Inl\<close> is an exception that reaches the
  outer \<open>except Exception\<close>.\<close>

definition recover_try :: "'s CrashRecoveryHandler \<Rightarrow> (RecoveryResult, 's) op" where
  "recover_try h s =
     (case (case h_db h of
              None \<Rightarrow> (None, s)
            | Some d \<Rightarrow>
                (case check_connection d s of
                   (Inl e, s1) \<Rightarrow> (Some e, s1)
                 | (Inr alive, s1) \<Rightarrow> (None, s1))) of
        (Some e, s1) \<Rightarrow> (Inr (failed_recovery (''Database unavailable: '' @ str_exn e)), s1)
      | (None, s1) \<Rightarrow>
          (case h_checkpoint_manager h of
             None \<Rightarrow> (Inl (no_attribute PNone ''get_recovery_point''), s1)
           | Some cm \<Rightarrow>
               (case get_recovery_point cm s1 of
                  (Inl e, s2) \<Rightarrow>
                    if is_CorruptCheckpointError e
                    then (Inr (failed_recovery (''corrupt checkpoint: '' @ str_exn e)), s2)
                    else (Inl e, s2)
                | (Inr recovery_point, s2) \<Rightarrow>
                    if \<not> rp_can_resume recovery_point
                    then (Inr \<lparr> rr_success = True, rr_recovered_batches = 0,
                                rr_resume_from = None, rr_data_loss = Some 0,
                                rr_partial_batch_discarded = False, rr_error = None,
                                rr_can_resume = False \<rparr>, s2)
                    else (case recovered_batch_count recovery_point of
                            Inl e \<Rightarrow> (Inl e, s2)
                          | Inr batch_count \<Rightarrow>
                              (case check_partial_batch h s2 of
                                 (Inl e, s3) \<Rightarrow> (Inl e, s3)
                               | (Inr partial_batch_discarded, s3) \<Rightarrow>
                                   (case resume_from recovery_point of
                                      Inl e \<Rightarrow> (Inl e, s3)
                                    | Inr next_id \<Rightarrow>
                                        (Inr \<lparr> rr_success = True,
                                               rr_recovered_batches = batch_count,
                                               rr_resume_from = next_id,
                                               rr_data_loss = Some 0,
                                               rr_partial_batch_discarded =
                                                 partial_batch_discarded,
                                               rr_error = None,
                                               rr_can_resume = True \<rparr>, s3)))))))"

definition recover :: "'s CrashRecoveryHandler \<Rightarrow> 's \<Rightarrow> RecoveryResult \<times> 's" where
  "recover h s =
     (case recover_try h s of
        (Inl e, s1) \<Rightarrow> (failed_recovery (str_exn e), s1)
      | (Inr result, s1) \<Rightarrow> (result, s1))"

section \<open>database.py: the SQLite wrapper\<close>

text \<open>
  The two tables the modelled operations read and write, in insertion order (the
  checkpoint table's \<open>ORDER BY id DESC LIMIT 1\<close> is the last row), and whether the
  connection has been closed. Of the documents table the columns \<open>id\<close>, \<open>content\<close> and
  \<open>batch_id\<close> are kept. \<open>current_timestamp\<close> is what SQLite fills into the timestamp
  column. Values are stored as the column's type affinity converts them; floating point
  values are outside the modelled Python values.
\<close>

record doc_row =
  row_id :: pyval
  row_content :: pyval
  row_batch_id :: string

record checkpoint_row =
  ck_last_batch_id :: pyval
  ck_total_persisted :: pyval
  ck_status :: pyval
  ck_timestamp :: pyval

record Database =
  documents_table :: "doc_row list"
  checkpoints_table :: "checkpoint_row list"
  closed :: bool
  current_timestamp :: string

definition closed_error :: exn where
  "closed_error = ProgrammingError ''Cannot operate on a closed database.''"

fun is_dict :: "pyval \<Rightarrow> bool" where
  "is_dict (PDict d) = True"
| "is_dict v = False"

text \<open>Binding a Python value to the statement parameter at a position (counted from 1): a
  dictionary is refused, an integer outside 64 bits overflows.\<close>

definition bind_error :: "nat \<Rightarrow> pyval \<Rightarrow> exn option" where
  "bind_error position v =
     (case v of
        PDict d \<Rightarrow>
          Some (ProgrammingError (''Error binding parameter '' @ str_nat position @ '': type ''
                  @ [CHR 0x27] @ ''dict'' @ [CHR 0x27] @ '' is not supported''))
      | PInt n \<Rightarrow>
          if n < - (2 ^ 63) \<or> 2 ^ 63 \<le> n
          then Some (OverflowError ''Python int too large to convert to SQLite INTEGER'')
          else None
      | other \<Rightarrow> None)"

text \<open>The parameters are bound in order; the first failure is raised.\<close>

fun first_bind_error :: "(nat \<times> pyval) list \<Rightarrow> exn option" where
  "first_bind_error [] = None"
| "first_bind_error ((position, v) # rest) =
     (case bind_error position v of Some e \<Rightarrow> Some e | None \<Rightarrow> first_bind_error rest)"

text \<open>A column of TEXT affinity stores a bound number as its decimal text (a boolean is
  bound as 0 or 1).\<close>

fun text_affinity :: "pyval \<Rightarrow> pyval" where
  "text_affinity (PInt n) = PStr (str_int n)"
| "text_affinity (PBool b) = PStr (if b then ''1'' else ''0'')"
| "text_affinity v = v"

text \<open>A column of INTEGER affinity stores a boolean as 0 or 1 and text that is a plain
  decimal integer of 64 bits as that integer; other text is kept.\<close>

fun integer_affinity :: "pyval \<Rightarrow> pyval" where
  "integer_affinity (PBool b) = PInt (if b then 1 else 0)"
| "integer_affinity (PStr s) =
     (if isdigit s \<and> int (decimal_value s) < 2 ^ 63 then PInt (int (decimal_value s))
      else if s \<noteq> [] \<and> hd s = CHR ''-'' \<and> isdigit (tl s) \<and> int (decimal_value (tl s)) \<le> 2 ^ 63
      then PInt (- int (decimal_value (tl s)))
      else PStr s)"
| "integer_affinity v = v"

definition Database_check_connection :: "(bool, Database) op" where
  "Database_check_connection db = (Inr (\<not> closed db), db)"

text \<open>The loop of \<open>insert_documents\<close>: rows inserted before a failing statement stay in
  the open transaction of the connection. The parameters that can fail to bind are \<open>id\<close>,
  \<open>content\<close> and the raw \<open>title\<close> (positions 1, 2 and 5); \<open>headers\<close>, \<open>sections\<close> and
  \<open>metadata\<close> are bound as JSON text or \<open>None\<close>. The NOT NULL constraint is checked
  before the uniqueness of the primary key, for which \<open>NULL\<close> values never collide.\<close>

fun insert_rows :: "pydict list \<Rightarrow> string \<Rightarrow> bool \<Rightarrow> doc_row list \<Rightarrow> exn option \<times> doc_row list" where
  "insert_rows [] batch_id is_closed rows = (None, rows)"
| "insert_rows (doc # docs) batch_id is_closed rows =
     (case map_of doc ''id'' of
        None \<Rightarrow> (Some (KeyError ([CHR 0x27] @ ''id'' @ [CHR 0x27])), rows)
      | Some i \<Rightarrow>
          (case map_of doc ''content'' of
             None \<Rightarrow> (Some (KeyError ([CHR 0x27] @ ''content'' @ [CHR 0x27])), rows)
           | Some c \<Rightarrow>
               if is_closed then (Some closed_error, rows)
               else (case first_bind_error
                            [(1, i), (2, c),
                             (5, case map_of doc ''title'' of None \<Rightarrow> PNone | Some v \<Rightarrow> v)] of
                       Some e \<Rightarrow> (Some e, rows)
                     | None \<Rightarrow>
                         if c = PNone
                         then (Some (IntegrityError
                                 ''NOT NULL constraint failed: documents.content''), rows)
                         else if i \<noteq> PNone \<and> text_affinity i \<in> set (map row_id rows)
                         then (Some (IntegrityError
                                 ''UNIQUE constraint failed: documents.id''), rows)
                         else insert_rows docs batch_id is_closed
                                (rows @ [\<lparr> row_id = text_affinity i,
                                           row_content = text_affinity c,
                                           row_batch_id = batch_id \<rparr>]))))"

definition Database_insert_documents :: "pydict list \<Rightarrow> string \<Rightarrow> (unit, Database) op" where
  "Database_insert_documents docs batch_id db =
     (case insert_rows docs batch_id (closed db) (documents_table db) of
        (Some e, rows) \<Rightarrow> (Inl e, db \<lparr> documents_table := rows \<rparr>)
      | (None, rows) \<Rightarrow>
          if closed db then (Inl closed_error, db) else (Inr (), db \<lparr> documents_table := rows \<rparr>))"

definition Database_commit :: "(unit, Database) op" where
  "Database_commit db = (if closed db then (Inl closed_error, db) else (Inr (), db))"

definition Database_get_latest_checkpoint :: "(pyval, Database) op" where
  "Database_get_latest_checkpoint db =
     (if closed db then (Inl closed_error, db)
      else if checkpoints_table db = [] then (Inr PNone, db)
      else (let row = last (checkpoints_table db) in
            (Inr (PDict [(''last_batch_id'', ck_last_batch_id row),
                         (''total_persisted'', ck_total_persisted row),
                         (''status'', ck_status row),
                         (''timestamp'', ck_timestamp row)]), db)))"

definition Database_save_checkpoint :: "pydict \<Rightarrow> (unit, Database) op" where
  "Database_save_checkpoint checkpoint_data db =
     (case map_of checkpoint_data ''last_batch_id'' of
        None \<Rightarrow> (Inl (KeyError ([CHR 0x27] @ ''last_batch_id'' @ [CHR 0x27])), db)
      | Some b \<Rightarrow>
          (case map_of checkpoint_data ''total_persisted'' of
             None \<Rightarrow> (Inl (KeyError ([CHR 0x27] @ ''total_persisted'' @ [CHR 0x27])), db)
           | Some t \<Rightarrow>
               (case map_of checkpoint_data ''status'' of
                  None \<Rightarrow> (Inl (KeyError ([CHR 0x27] @ ''status'' @ [CHR 0x27])), db)
                | Some st \<Rightarrow>
                    if closed db then (Inl closed_error, db)
                    else (case first_bind_error [(1, b), (2, t), (3, st)] of
                            Some e \<Rightarrow> (Inl e, db)
                          | None \<Rightarrow>
                              (Inr (),
                               db \<lparr> checkpoints_table := checkpoints_table db @
                                      [\<lparr> ck_last_batch_id = text_affinity b,
                                         ck_total_persisted = integer_affinity t,
                                         ck_status = text_affinity st,
                                         ck_timestamp = PStr (current_timestamp db) \<rparr>] \<rparr>)))))"

definition Database_get_document_count :: "(int, Database) op" where
  "Database_get_document_count db =
     (if closed db then (Inl closed_error, db) else (Inr (int (length (documents_table db))), db))"

text \<open>"Parse the latest batch number", shared by the two partial-batch methods.\<close>

definition last_batch_number :: "string \<Rightarrow> int" where
  "last_batch_number last_batch_id =
     (let parts = py_split last_batch_id ''_'' in
      if length parts = 2 \<and> isdigit (parts ! 1)
      then (case py_int (parts ! 1) of Some n \<Rightarrow> n | None \<Rightarrow> 0)
      else 0)"

text \<open>The loop of \<open>has_partial_batch\<close> over the distinct batch identifiers of the stored
  documents.\<close>

fun has_partial_loop :: "string \<Rightarrow> int \<Rightarrow> string list \<Rightarrow> bool" where
  "has_partial_loop last_batch_id last_batch_num [] = False"
| "has_partial_loop last_batch_id last_batch_num (batch_id # rest) =
     (let base_id = hd (py_split batch_id ''_partial'');
          parts = py_split base_id ''_''
      in if length parts = 2 \<and> isdigit (parts ! 1)
         then (case py_int (parts ! 1) of
                 Some batch_num \<Rightarrow>
                   if batch_num > last_batch_num then True
                   else has_partial_loop last_batch_id last_batch_num rest
               | None \<Rightarrow>
                   if batch_id \<noteq> last_batch_id then True
                   else has_partial_loop last_batch_id last_batch_num rest)
         else has_partial_loop last_batch_id last_batch_num rest)"

definition Database_has_partial_batch :: "(bool, Database) op" where
  "Database_has_partial_batch db =
     (if closed db then (Inl closed_error, db)
      else (let doc_batches = remdups (map row_batch_id (documents_table db)) in
            case Database_get_latest_checkpoint db of
              (Inl e, db1) \<Rightarrow> (Inl e, db1)
            | (Inr latest, db1) \<Rightarrow>
                if \<not> py_truthy latest then (Inr (doc_batches \<noteq> []), db1)
                else (case latest of
                        PDict entries \<Rightarrow>
                          (case (case map_of entries ''last_batch_id'' of
                                   None \<Rightarrow> PStr [] | Some v \<Rightarrow> v) of
                             PStr last_batch_id \<Rightarrow>
                               (Inr (has_partial_loop last_batch_id
                                       (last_batch_number last_batch_id) doc_batches), db1)
                           | v \<Rightarrow> (Inl (no_attribute v ''split''), db1))
                      | v \<Rightarrow> (Inl (no_attribute v ''get''), db1))))"

text \<open>The loop of \<open>discard_partial_batch\<close>: each \<open>DELETE ... WHERE batch_id = ?\<close> removes
  the rows of one batch.\<close>

definition delete_batch :: "string \<Rightarrow> doc_row list \<Rightarrow> doc_row list" where
  "delete_batch batch_id rows = filter (\<lambda>r. row_batch_id r \<noteq> batch_id) rows"

fun discard_loop :: "string \<Rightarrow> int \<Rightarrow> string list \<Rightarrow> doc_row list \<Rightarrow> doc_row list" where
  "discard_loop last_batch_id last_batch_num [] rows = rows"
| "discard_loop last_batch_id last_batch_num (batch_id # rest) rows =
     (let base_id = hd (py_split batch_id ''_partial'');
          parts = py_split base_id ''_''
      in if length parts = 2 \<and> isdigit (parts ! 1)
         then (case py_int (parts ! 1) of
                 Some batch_num \<Rightarrow>
                   if batch_num > last_batch_num
                   then discard_loop last_batch_id last_batch_num rest (delete_batch batch_id rows)
                   else discard_loop last_batch_id last_batch_num rest rows
               | None \<Rightarrow>
                   if batch_id \<noteq> last_batch_id
                   then discard_loop last_batch_id last_batch_num rest (delete_batch batch_id rows)
                   else discard_loop last_batch_id last_batch_num rest rows)
         else if batch_id \<noteq> last_batch_id
         then discard_loop last_batch_id last_batch_num rest (delete_batch batch_id rows)
         else discard_loop last_batch_id last_batch_num rest rows)"

definition Database_discard_partial_batch :: "(unit, Database) op" where
  "Database_discard_partial_batch db =
     (case Database_get_latest_checkpoint db of
        (Inl e, db1) \<Rightarrow> (Inl e, db1)
      | (Inr latest, db1) \<Rightarrow>
          if \<not> py_truthy latest then (Inr (), db1 \<lparr> documents_table := [] \<rparr>)
          else (case latest of
                  PDict entries \<Rightarrow>
                    (case (case map_of entries ''last_batch_id'' of
                             None \<Rightarrow> PStr [] | Some v \<Rightarrow> v) of
                       PStr last_batch_id \<Rightarrow>
                         (let doc_batches = remdups (map row_batch_id (documents_table db1)) in
                          (Inr (),
                           db1 \<lparr> documents_table :=
                                  discard_loop last_batch_id (last_batch_number last_batch_id)
                                    doc_batches (documents_table db1) \<rparr>))
                     | v \<Rightarrow> (Inl (no_attribute v ''split''), db1))
                | v \<Rightarrow> (Inl (no_attribute v ''get''), db1)))"

definition Database_close :: "Database \<Rightarrow> Database" where
  "Database_close db = db \<lparr> closed := True \<rparr>"

text \<open>What the two loops decide for one batch identifier: \<open>has_partial_batch\<close> reports
  it, \<open>discard_partial_batch\<close> deletes its rows.\<close>

definition flagged_by_has :: "string \<Rightarrow> int \<Rightarrow> string \<Rightarrow> bool" where
  "flagged_by_has last_batch_id last_batch_num batch_id =
     (if length (py_split (hd (py_split batch_id ''_partial'')) ''_'') = 2
         \<and> isdigit (py_split (hd (py_split batch_id ''_partial'')) ''_'' ! 1)
      then (case py_int (py_split (hd (py_split batch_id ''_partial'')) ''_'' ! 1) of
              Some batch_num \<Rightarrow> last_batch_num < batch_num
            | None \<Rightarrow> batch_id \<noteq> last_batch_id)
      else False)"

definition flagged_by_discard :: "string \<Rightarrow> int \<Rightarrow> string \<Rightarrow> bool" where
  "flagged_by_discard last_batch_id last_batch_num batch_id =
     (if length (py_split (hd (py_split batch_id ''_partial'')) ''_'') = 2
         \<and> isdigit (py_split (hd (py_split batch_id ''_partial'')) ''_'' ! 1)
      then (case py_int (py_split (hd (py_split batch_id ''_partial'')) ''_'' ! 1) of
              Some batch_num \<Rightarrow> last_batch_num < batch_num
            | None \<Rightarrow> batch_id \<noteq> last_batch_id)
      else batch_id \<noteq> last_batch_id)"

text \<open>The \<open>Database\<close> object as a storage collaborator.\<close>

definition Database_storage :: "Database storage" where
  "Database_storage =
     \<lparr> check_connection = Database_check_connection,
       insert_documents = Database_insert_documents,
       commit = Database_commit,
       get_latest_checkpoint = Database_get_latest_checkpoint,
       save_checkpoint = Database_save_checkpoint,
       get_document_count = Database_get_document_count,
       has_partial_batch = Some Database_has_partial_batch,
       discard_partial_batch = Some Database_discard_partial_batch \<rparr>"


section \<open>Sessions: sequences of calls on one object\<close>

text \<open>A session of a writer is a list of calls of its two public methods, run in order
  on the writer and the outside world as the previous call left them.\<close>

datatype writer_call =
    ProcessBatch "pydict list" string string
  | CommitBatch string

datatype writer_outcome =
    Raised exn
  | BatchReturned BatchResult
  | CommitReturned bool

definition run_call ::
  "'s filesystem \<Rightarrow> writer_call \<Rightarrow> 's StreamingBatchWriter \<Rightarrow> 's
     \<Rightarrow> writer_outcome \<times> 's StreamingBatchWriter \<times> 's" where
  "run_call fs c w s =
     (case c of
        ProcessBatch documents batch_id now \<Rightarrow>
          (case process_batch fs w documents batch_id now s of
             (Inl e, w1, s1) \<Rightarrow> (Raised e, w1, s1)
           | (Inr r, w1, s1) \<Rightarrow> (BatchReturned r, w1, s1))
      | CommitBatch batch_id \<Rightarrow>
          (case commit_batch w batch_id s of
             (Inl e, w1, s1) \<Rightarrow> (Raised e, w1, s1)
           | (Inr b, w1, s1) \<Rightarrow> (CommitReturned b, w1, s1)))"

fun run_writer ::
  "'s filesystem \<Rightarrow> writer_call list \<Rightarrow> 's StreamingBatchWriter \<Rightarrow> 's
     \<Rightarrow> writer_outcome list \<times> 's StreamingBatchWriter \<times> 's" where
  "run_writer fs [] w s = ([], w, s)"
| "run_writer fs (c # cs) w s =
     (case run_call fs c w s of
        (out, w1, s1) \<Rightarrow>
          (case run_writer fs cs w1 s1 of (outs, w2, s2) \<Rightarrow> (out # outs, w2, s2)))"

fun is_success :: "writer_outcome \<Rightarrow> bool" where
  "is_success (BatchReturned r) = br_success r"
| "is_success out = False"

text \<open>The sum of \<open>persisted_count\<close> over the successful \<open>process_batch\<close> calls of a run.\<close>

fun successful_total :: "writer_outcome list \<Rightarrow> int" where
  "successful_total [] = 0"
| "successful_total (out # outs) =
     (case out of
        BatchReturned r \<Rightarrow> (if br_success r then br_persisted_count r else 0)
      | other \<Rightarrow> 0) + successful_total outs"

text \<open>The batch identifiers whose \<open>process_batch\<close> call returned success.\<close>

fun successful_ids :: "writer_call list \<Rightarrow> writer_outcome list \<Rightarrow> string set" where
  "successful_ids (ProcessBatch documents batch_id now # cs) (out # outs) =
     (if is_success out then insert batch_id (successful_ids cs outs) else successful_ids cs outs)"
| "successful_ids (c # cs) (out # outs) = successful_ids cs outs"
| "successful_ids cs outs = {}"

text \<open>A session of a checkpoint manager: a list of \<open>update_checkpoint\<close> calls.\<close>

datatype update_call = UpdateCheckpoint string int "pydict option" bool string

fun run_updates ::
  "'s filesystem \<Rightarrow> update_call list \<Rightarrow> 's CheckpointManager \<Rightarrow> 's
     \<Rightarrow> (exn + Checkpoint) list \<times> 's CheckpointManager \<times> 's" where
  "run_updates fs [] cm s = ([], cm, s)"
| "run_updates fs (UpdateCheckpoint batch_id persisted_count metadata verify_db_state now # cs) cm s =
     (case update_checkpoint fs cm batch_id persisted_count metadata verify_db_state now s of
        (r, cm1, s1) \<Rightarrow>
          (case run_updates fs cs cm1 s1 of (rs, cm2, s2) \<Rightarrow> (r # rs, cm2, s2)))"

text \<open>Each checkpoint of a list has at least the total of the one before it.\<close>

definition adjacent_nondecreasing :: "Checkpoint list \<Rightarrow> bool" where
  "adjacent_nondecreasing cps =
     (\<forall>i. Suc i < length cps \<longrightarrow> cp_total_persisted (cps ! i) \<le> cp_total_persisted (cps ! Suc i))"

section \<open>A scripted storage double\<close>

text \<open>
  A collaborator for concrete runs, in the manner of the test suite's \<open>MockDatabase\<close> and
  of a \<open>Mock\<close> with a \<open>side_effect\<close> list: documents and checkpoints are appended to
  lists, and each call of a scripted method consumes the next entry of its script, raising
  when the entry is an exception. Like \<open>MockDatabase\<close> it has no partial-batch methods.
\<close>

record scripted =
  sc_documents :: "pydict list"
  sc_ledger :: "pydict list"
  sc_check_script :: "exn option list"
  sc_insert_script :: "exn option list"
  sc_save_script :: "exn option list"

definition scripted_check_connection :: "(bool, scripted) op" where
  "scripted_check_connection st =
     (case sc_check_script st of
        [] \<Rightarrow> (Inr True, st)
      | None # rest \<Rightarrow> (Inr True, st \<lparr> sc_check_script := rest \<rparr>)
      | Some e # rest \<Rightarrow> (Inl e, st \<lparr> sc_check_script := rest \<rparr>))"

definition scripted_insert_documents :: "pydict list \<Rightarrow> string \<Rightarrow> (unit, scripted) op" where
  "scripted_insert_documents docs batch_id st =
     (case sc_insert_script st of
        [] \<Rightarrow> (Inr (), st \<lparr> sc_documents := sc_documents st @ docs \<rparr>)
      | None # rest \<Rightarrow>
          (Inr (), st \<lparr> sc_documents := sc_documents st @ docs, sc_insert_script := rest \<rparr>)
      | Some e # rest \<Rightarrow> (Inl e, st \<lparr> sc_insert_script := rest \<rparr>))"

definition scripted_save_checkpoint :: "pydict \<Rightarrow> (unit, scripted) op" where
  "scripted_save_checkpoint checkpoint st =
     (case sc_save_script st of
        [] \<Rightarrow> (Inr (), st \<lparr> sc_ledger := sc_ledger st @ [checkpoint] \<rparr>)
      | None # rest \<Rightarrow>
          (Inr (), st \<lparr> sc_ledger := sc_ledger st @ [checkpoint], sc_save_script := rest \<rparr>)
      | Some e # rest \<Rightarrow> (Inl e, st \<lparr> sc_save_script := rest \<rparr>))"

definition scripted_get_latest_checkpoint :: "(pyval, scripted) op" where
  "scripted_get_latest_checkpoint st =
     (Inr (if sc_ledger st = [] then PNone else PDict (last (sc_ledger st))), st)"

definition scripted_storage :: "scripted storage" where
  "scripted_storage =
     \<lparr> check_connection = scripted_check_connection,
       insert_documents = scripted_insert_documents,
       commit = (\<lambda>st. (Inr (), st)),
       get_latest_checkpoint = scripted_get_latest_checkpoint,
       save_checkpoint = scripted_save_checkpoint,
       get_document_count = (\<lambda>st. (Inr (int (length (sc_documents st))), st)),
       has_partial_batch = None,
       discard_partial_batch = None \<rparr>"

definition fresh_scripted :: scripted where
  "fresh_scripted =
     \<lparr> sc_documents = [], sc_ledger = [], sc_check_script = [], sc_insert_script = [],
       sc_save_script = [] \<rparr>"

text \<open>A file system whose operations succeed and leave the modelled state alone.\<close>

definition quiet_filesystem :: "'s filesystem" where
  "quiet_filesystem =
     \<lparr> json_dump_to = (\<lambda>path d s. (Inr (), s)), os_rename = (\<lambda>src dst s. (Inr (), s)) \<rparr>"

definition doc :: "string \<Rightarrow> string \<Rightarrow> pydict" where
  "doc i c = [(''id'', PStr i), (''content'', PStr c)]"

section \<open>Verification\<close>

subsection \<open>Splitting, digits and decimal formatting\<close>

lemma split_acc_no_sep:
  "c \<notin> set s \<Longrightarrow> split_acc [c] acc s = [rev acc @ s]"
  by (induction s arbitrary: acc) auto

lemma split_acc_first_sep:
  "c \<notin> set p \<Longrightarrow> split_acc [c] acc (p @ c # rest) = (rev acc @ p) # split_acc [c] [] rest"
  by (induction p arbitrary: acc) auto

lemma py_split_two:
  "c \<notin> set p \<Longrightarrow> c \<notin> set d \<Longrightarrow> py_split (p @ c # d) [c] = [p, d]"
  by (simp add: py_split_def split_acc_first_sep split_acc_no_sep)

lemma split_acc_length:
  "length (split_acc [c] acc s) = Suc (length (filter (\<lambda>x. x = c) s))"
  by (induction s arbitrary: acc) auto

lemma py_split_two_conv:
  assumes "length (py_split b [c]) = 2"
  shows "\<exists>p d. b = p @ c # d \<and> c \<notin> set p \<and> c \<notin> set d \<and> py_split b [c] = [p, d]"
proof -
  from assms have one: "length (filter (\<lambda>x. x = c) b) = 1"
    by (simp add: py_split_def split_acc_length)
  then have "c \<in> set b"
    by (metis (mono_tags, lifting) filter_False length_0_conv zero_neq_one)
  then obtain p d where b: "b = p @ c # d" and p: "c \<notin> set p"
    by (meson split_list_first)
  from one b p have "length (filter (\<lambda>x. x = c) d) = 0" by simp
  then have d: "c \<notin> set d"
    by (metis (mono_tags, lifting) filter_empty_conv length_0_conv)
  show ?thesis using b p d py_split_two[OF p d] by blast
qed

lemma isdigit_no_underscore: "isdigit d \<Longrightarrow> CHR ''_'' \<notin> set d"
  by (auto simp: isdigit_def is_ascii_digit_def list_all_iff)

lemma digit_char_is_digit: "is_ascii_digit (digit_char n)"
  by (simp add: digit_char_def is_ascii_digit_def)

lemma digit_val_digit_char: "digit_val (digit_char n) = n mod 10"
  by (simp add: digit_char_def digit_val_def)

lemma str_nat_digits: "str_nat n \<noteq> [] \<and> list_all is_ascii_digit (str_nat n)"
  by (induction n rule: str_nat.induct) (subst str_nat.simps, simp add: digit_char_is_digit)+

lemma str_nat_isdigit: "isdigit (str_nat n)"
  using str_nat_digits[of n] by (simp add: isdigit_def)

lemma decimal_value_snoc: "decimal_value (s @ [c]) = 10 * decimal_value s + digit_val c"
  by (simp add: decimal_value_def)

lemma decimal_value_str_nat: "decimal_value (str_nat n) = n"
proof (induction n rule: str_nat.induct)
  case (1 n)
  show ?case
  proof (cases "n < 10")
    case True
    then show ?thesis
      by (subst str_nat.simps) (simp add: decimal_value_def digit_val_digit_char)
  next
    case False
    with 1 show ?thesis
      by (subst str_nat.simps) (simp add: decimal_value_snoc digit_val_digit_char)
  qed
qed

lemma decimal_value_zeros: "decimal_value (replicate k (CHR ''0'') @ s) = decimal_value s"
  unfolding decimal_value_def by (induction k) (simp_all add: digit_val_def)

lemma zfill_isdigit: "isdigit s \<Longrightarrow> isdigit (zfill w s)"
  by (auto simp: isdigit_def zfill_def is_ascii_digit_def list_all_iff)

lemma decimal_value_zfill: "decimal_value (zfill w s) = decimal_value s"
  by (simp add: zfill_def decimal_value_zeros)

lemma length_zfill: "length (zfill w s) = max w (length s)"
  by (simp add: zfill_def)

lemma py_int_digits:
  "isdigit d \<Longrightarrow> length d \<le> max_str_digits \<Longrightarrow> py_int d = Some (int (decimal_value d))"
  by (simp add: py_int_def)

lemma py_int_too_long: "max_str_digits < length d \<Longrightarrow> py_int d = None"
  by (simp add: py_int_def)

lemma format_03d_successor:
  "format_03d (int m + 1)
     = (if max_str_digits < length (str_nat (m + 1)) then None
        else Some (zfill 3 (str_nat (m + 1))))"
proof -
  have "nat \<bar>int m + 1\<bar> = m + 1" by simp
  moreover have "nat (int m + 1) = m + 1" by simp
  ultimately show ?thesis by (simp add: format_03d_def del: of_nat_Suc)
qed

text \<open>The case that exceeds the limit only through the successor: a run of nines.\<close>

lemma foldl_nines:
  "foldl (\<lambda>a c. 10 * a + digit_val c) a (replicate k (CHR ''9'')) + 1 = (a + 1) * 10 ^ k"
  by (induction k arbitrary: a) (simp_all add: digit_val_def algebra_simps)

lemma decimal_value_nines: "decimal_value (replicate k (CHR ''9'')) + 1 = 10 ^ k"
  using foldl_nines[of 0 k] by (simp add: decimal_value_def)

lemma length_str_nat_power: "length (str_nat (10 ^ k)) = Suc k"
proof (induction k)
  case 0
  show ?case by (subst str_nat.simps) simp
next
  case (Suc k)
  have "\<not> (10::nat) ^ Suc k < 10" by simp
  moreover have "(10::nat) ^ Suc k div 10 = 10 ^ k" by simp
  ultimately show ?case using Suc by (subst str_nat.simps) (simp del: power_Suc)
qed

subsection \<open>The resume identifier\<close>

text \<open>
  C4 (as amended). For a \<open>last_batch_id\<close> made of a prefix without underscore, one
  underscore and a non-empty run of decimal digits, where neither the run nor the decimal
  numeral of its successor exceeds the interpreter's conversion limit, \<open>resume_from\<close> is
  the text \<open>batch_\<close> followed by the suffix's value plus one, written in decimal and
  zero-padded to at least three digits (the padded numeral reads back as that value),
  whatever the prefix and the padding width of \<open>last_batch_id\<close> were. \<open>resume_from\<close> is
  \<open>None\<close> when the run or the successor's numeral exceeds the limit, and when
  \<open>last_batch_id\<close> is absent or is a string not of that form.
\<close>

theorem resume_from_batch_format:
  "(rp_last_batch_id rp = PStr (p @ ''_'' @ d) \<and> CHR ''_'' \<notin> set p \<and> isdigit d
      \<and> length d \<le> max_str_digits
      \<and> length (str_nat (decimal_value d + 1)) \<le> max_str_digits \<longrightarrow>
      resume_from rp = Inr (Some (''batch_'' @ zfill 3 (str_nat (decimal_value d + 1))))
      \<and> isdigit (zfill 3 (str_nat (decimal_value d + 1)))
      \<and> decimal_value (zfill 3 (str_nat (decimal_value d + 1))) = decimal_value d + 1
      \<and> length (zfill 3 (str_nat (decimal_value d + 1)))
          = max 3 (length (str_nat (decimal_value d + 1))))
   \<and> (rp_last_batch_id rp = PStr (p @ ''_'' @ d) \<and> CHR ''_'' \<notin> set p \<and> isdigit d
      \<and> (max_str_digits < length d
           \<or> max_str_digits < length (str_nat (decimal_value d + 1))) \<longrightarrow>
      resume_from rp = Inr None)
   \<and> (rp_last_batch_id rp = PNone
        \<or> (\<exists>b. rp_last_batch_id rp = PStr b
               \<and> \<not> (\<exists>p d. b = p @ ''_'' @ d \<and> CHR ''_'' \<notin> set p \<and> isdigit d)) \<longrightarrow>
      resume_from rp = Inr None)"
proof (intro conjI impI)
  assume a: "rp_last_batch_id rp = PStr (p @ ''_'' @ d) \<and> CHR ''_'' \<notin> set p \<and> isdigit d
      \<and> length d \<le> max_str_digits
      \<and> length (str_nat (decimal_value d + 1)) \<le> max_str_digits"
  then have sp: "py_split (p @ ''_'' @ d) ''_'' = [p, d]"
    using py_split_two[of "CHR ''_''" p d] isdigit_no_underscore[of d] by simp
  have pi: "py_int d = Some (int (decimal_value d))" using a by (simp add: py_int_digits)
  have fm: "format_03d (int (decimal_value d) + 1) = Some (zfill 3 (str_nat (decimal_value d + 1)))"
    using a by (simp add: format_03d_successor del: of_nat_Suc)
  from a sp pi fm
  show "resume_from rp = Inr (Some (''batch_'' @ zfill 3 (str_nat (decimal_value d + 1))))"
    by (simp add: resume_from_def del: of_nat_Suc)
  show "isdigit (zfill 3 (str_nat (decimal_value d + 1)))"
    by (rule zfill_isdigit[OF str_nat_isdigit])
  show "decimal_value (zfill 3 (str_nat (decimal_value d + 1))) = decimal_value d + 1"
    by (simp add: decimal_value_zfill decimal_value_str_nat)
  show "length (zfill 3 (str_nat (decimal_value d + 1)))
          = max 3 (length (str_nat (decimal_value d + 1)))"
    by (rule length_zfill)
next
  assume a: "rp_last_batch_id rp = PStr (p @ ''_'' @ d) \<and> CHR ''_'' \<notin> set p \<and> isdigit d
      \<and> (max_str_digits < length d
           \<or> max_str_digits < length (str_nat (decimal_value d + 1)))"
  then have sp: "py_split (p @ ''_'' @ d) ''_'' = [p, d]"
    using py_split_two[of "CHR ''_''" p d] isdigit_no_underscore[of d] by simp
  show "resume_from rp = Inr None"
  proof (cases "max_str_digits < length d")
    case True
    then have "py_int d = None" by (rule py_int_too_long)
    with a sp show ?thesis by (simp add: resume_from_def)
  next
    case False
    with a have long: "max_str_digits < length (str_nat (decimal_value d + 1))" by blast
    have pi: "py_int d = Some (int (decimal_value d))" using a False by (simp add: py_int_digits)
    have fm: "format_03d (int (decimal_value d) + 1) = None"
      using long by (simp add: format_03d_successor del: of_nat_Suc)
    from a sp pi fm show ?thesis by (simp add: resume_from_def del: of_nat_Suc)
  qed
next
  assume a: "rp_last_batch_id rp = PNone
        \<or> (\<exists>b. rp_last_batch_id rp = PStr b
               \<and> \<not> (\<exists>p d. b = p @ ''_'' @ d \<and> CHR ''_'' \<notin> set p \<and> isdigit d))"
  show "resume_from rp = Inr None"
  proof (cases "rp_last_batch_id rp = PNone")
    case True
    then show ?thesis by (simp add: resume_from_def)
  next
    case False
    with a obtain b where b: "rp_last_batch_id rp = PStr b"
      and nc: "\<not> (\<exists>p d. b = p @ ''_'' @ d \<and> CHR ''_'' \<notin> set p \<and> isdigit d)" by blast
    have "\<not> (length (py_split b ''_'') = 2 \<and> isdigit (py_split b ''_'' ! 1))"
    proof
      assume c: "length (py_split b ''_'') = 2 \<and> isdigit (py_split b ''_'' ! 1)"
      then obtain p d where "b = p @ CHR ''_'' # d" "CHR ''_'' \<notin> set p" "py_split b ''_'' = [p, d]"
        using py_split_two_conv[of b "CHR ''_''"] by blast
      with c nc show False by auto
    qed
    with b show ?thesis by (auto simp: resume_from_def Let_def)
  qed
qed

text \<open>The theorem at \<open>batch_009\<close>; at a run of 4300 nines, whose successor has 4301 digits,
  and at a run of 4301 digits; at an absent identifier and at a non-conforming one.\<close>

theorem resume_from_batch_format_witness:
  "resume_from \<lparr>rp_last_batch_id = PStr ''batch_009'', rp_total_persisted = PInt 900, rp_can_resume = True\<rparr>
     = Inr (Some ''batch_010'')
   \<and> resume_from \<lparr>rp_last_batch_id = PStr (''batch'' @ ''_'' @ replicate 4300 (CHR ''9'')),
                    rp_total_persisted = PInt 0, rp_can_resume = True\<rparr>
     = Inr None
   \<and> resume_from \<lparr>rp_last_batch_id = PStr (''batch'' @ ''_'' @ replicate 4301 (CHR ''1'')),
                    rp_total_persisted = PInt 0, rp_can_resume = True\<rparr>
     = Inr None
   \<and> resume_from \<lparr>rp_last_batch_id = PNone, rp_total_persisted = PInt 0, rp_can_resume = False\<rparr>
     = Inr None
   \<and> resume_from \<lparr>rp_last_batch_id = PStr ''batch_x1'', rp_total_persisted = PInt 0, rp_can_resume = True\<rparr>
     = Inr None"
proof -
  have d: "isdigit ''009''" by (simp add: isdigit_def is_ascii_digit_def)
  have v: "decimal_value ''009'' + 1 = 10" by (simp add: decimal_value_def digit_val_def)
  have f: "zfill 3 (str_nat 10) = ''010''" by code_simp
  have l: "length (str_nat 10) \<le> max_str_digits" by code_simp
  have a: "resume_from \<lparr>rp_last_batch_id = PStr ''batch_009'', rp_total_persisted = PInt 900,
                          rp_can_resume = True\<rparr> = Inr (Some ''batch_010'')"
    using resume_from_batch_format[THEN conjunct1, of
            "\<lparr>rp_last_batch_id = PStr ''batch_009'', rp_total_persisted = PInt 900, rp_can_resume = True\<rparr>"
            "''batch''" "''009''"] d v f l
    by (simp add: max_str_digits_def)
  have d9: "isdigit (replicate 4300 (CHR ''9''))"
    by (simp add: isdigit_def is_ascii_digit_def list_all_iff)
  have "length (str_nat (decimal_value (replicate 4300 (CHR ''9'')) + 1)) = Suc 4300"
    by (simp only: decimal_value_nines length_str_nat_power)
  then have l9: "max_str_digits < length (str_nat (decimal_value (replicate 4300 (CHR ''9'')) + 1))"
    by (simp add: max_str_digits_def)
  have b: "resume_from \<lparr>rp_last_batch_id = PStr (''batch'' @ ''_'' @ replicate 4300 (CHR ''9'')),
                    rp_total_persisted = PInt 0, rp_can_resume = True\<rparr> = Inr None"
    using resume_from_batch_format[THEN conjunct2, THEN conjunct1, of
            "\<lparr>rp_last_batch_id = PStr (''batch'' @ ''_'' @ replicate 4300 (CHR ''9'')),
                    rp_total_persisted = PInt 0, rp_can_resume = True\<rparr>"
            "''batch''" "replicate 4300 (CHR ''9'')"] d9 l9
    by simp
  have d1: "isdigit (replicate 4301 (CHR ''1''))"
    by (simp add: isdigit_def is_ascii_digit_def list_all_iff)
  have c: "resume_from \<lparr>rp_last_batch_id = PStr (''batch'' @ ''_'' @ replicate 4301 (CHR ''1'')),
                    rp_total_persisted = PInt 0, rp_can_resume = True\<rparr> = Inr None"
    using resume_from_batch_format[THEN conjunct2, THEN conjunct1, of
            "\<lparr>rp_last_batch_id = PStr (''batch'' @ ''_'' @ replicate 4301 (CHR ''1'')),
                    rp_total_persisted = PInt 0, rp_can_resume = True\<rparr>"
            "''batch''" "replicate 4301 (CHR ''1'')"] d1
    by (simp add: max_str_digits_def)
  have nc: "\<not> (\<exists>p d. ''batch_x1'' = p @ ''_'' @ d \<and> CHR ''_'' \<notin> set p \<and> isdigit d)"
  proof
    assume "\<exists>p d. ''batch_x1'' = p @ ''_'' @ d \<and> CHR ''_'' \<notin> set p \<and> isdigit d"
    then obtain p d where e: "''batch_x1'' = p @ ''_'' @ d" and p: "CHR ''_'' \<notin> set p" and dd: "isdigit d" by blast
    have "py_split (p @ CHR ''_'' # d) ''_'' = [p, d]"
      using py_split_two[OF p isdigit_no_underscore[OF dd]] by simp
    with e have "py_split ''batch_x1'' ''_'' = [p, d]" by simp
    moreover have "py_split ''batch_x1'' ''_'' = [''batch'', ''x1'']" by code_simp
    ultimately have "d = ''x1''" by simp
    with dd show False by (simp add: isdigit_def is_ascii_digit_def)
  qed
  have e: "resume_from \<lparr>rp_last_batch_id = PNone, rp_total_persisted = PInt 0, rp_can_resume = False\<rparr>
            = Inr None"
    using resume_from_batch_format[THEN conjunct2, THEN conjunct2, of
            "\<lparr>rp_last_batch_id = PNone, rp_total_persisted = PInt 0, rp_can_resume = False\<rparr>"]
    by simp
  have g: "resume_from \<lparr>rp_last_batch_id = PStr ''batch_x1'', rp_total_persisted = PInt 0, rp_can_resume = True\<rparr>
            = Inr None"
    using resume_from_batch_format[THEN conjunct2, THEN conjunct2, of
            "\<lparr>rp_last_batch_id = PStr ''batch_x1'', rp_total_persisted = PInt 0, rp_can_resume = True\<rparr>"]
          nc
    by simp
  show ?thesis using a b c e g by blast
qed

text \<open>C4 as stated fails: \<open>chunk_0009\<close> does not yield \<open>chunk_0010\<close>; the prefix and the
  width of the identifier are not kept.\<close>

theorem resume_from_chunk_counterexample:
  "resume_from \<lparr>rp_last_batch_id = PStr ''chunk_0009'', rp_total_persisted = PInt 900, rp_can_resume = True\<rparr>
     = Inr (Some ''batch_010'')
   \<and> resume_from \<lparr>rp_last_batch_id = PStr ''chunk_0009'', rp_total_persisted = PInt 900, rp_can_resume = True\<rparr>
     \<noteq> Inr (Some ''chunk_0010'')"
  by code_simp

subsection \<open>The batch writer\<close>

lemma update_checkpoint_shape:
  assumes "update_checkpoint fs cm batch_id persisted_count metadata verify_db_state now s = (r, cm', s')"
  shows "cm_db cm' = cm_db cm \<and> checkpoint_file cm' = checkpoint_file cm
         \<and> ((checkpoints cm' = checkpoints cm \<and> (\<exists>e. r = Inl e) \<and> cm' = cm)
            \<or> (\<exists>cp. checkpoints cm' = checkpoints cm @ [cp]
                     \<and> cp_last_batch_id cp = batch_id
                     \<and> 0 \<le> persisted_count
                     \<and> fst (prior_cumulative cm s) = Inr (cp_total_persisted cp - persisted_count)
                     \<and> (\<forall>c. r = Inr c \<longrightarrow> c = cp)))"
  using assms
  by (auto simp: update_checkpoint_def Let_def split: if_splits prod.splits sum.splits)

lemma validate_documents_None:
  "validate_documents docs = None \<longleftrightarrow> (\<forall>d \<in> set docs. \<not> lacks_field d ''id'' \<and> \<not> lacks_field d ''content'')"
  by (induction docs) auto

lemma validate_documents_Some:
  "validate_documents docs = Some e \<Longrightarrow> \<exists>m. e = ValueError m"
  by (induction docs) (auto split: if_splits)

lemma process_batch_invalid:
  "documents = [] \<or> batch_id \<in> processed_batch_ids w \<or> validate_documents documents \<noteq> None \<Longrightarrow>
     \<exists>m. process_batch fs w documents batch_id now s = (Inl (ValueError m), w, s)"
  by (auto simp: process_batch_def dest: validate_documents_Some)

lemma process_batch_valid:
  assumes "documents \<noteq> []" "batch_id \<notin> processed_batch_ids w" "validate_documents documents = None"
  shows "\<exists>r w' s'. process_batch fs w documents batch_id now s = (Inr r, w', s')
           \<and> pending_batches w' = pending_batches w \<and> w_db w' = w_db w \<and> batch_size w' = batch_size w
           \<and> processed_batch_ids w' = (if br_success r then insert batch_id (processed_batch_ids w) else processed_batch_ids w)
           \<and> (br_success r \<longrightarrow> br_persisted_count r = int (length documents))"
proof -
  obtain ri s1 where ins: "(case w_db w of None \<Rightarrow> (Inr (), s) | Some d \<Rightarrow> insert_documents d documents batch_id s) = (ri, s1)"
    by (metis surj_pair)
  show ?thesis
  proof (cases ri)
    case (Inl e)
    with assms ins show ?thesis by (simp add: process_batch_def failed_batch_def)
  next
    case (Inr u)
    show ?thesis
    proof (cases "w_checkpoint_manager w")
      case None
      with assms ins Inr show ?thesis by (simp add: process_batch_def)
    next
      case (Some cm)
      obtain ru cm' s2 where up: "update_checkpoint fs cm batch_id (int (length documents)) None False now s1 = (ru, cm', s2)"
        by (metis prod_cases3)
      with assms ins Inr Some show ?thesis
        by (cases ru) (simp_all add: process_batch_def failed_batch_def)
    qed
  qed
qed

lemma process_batch_raises:
  assumes "process_batch fs w documents batch_id now s = (Inl e, w', s')"
  shows "w' = w \<and> s' = s \<and> (\<exists>m. e = ValueError m)
     \<and> (documents = [] \<or> batch_id \<in> processed_batch_ids w \<or> validate_documents documents \<noteq> None)"
proof (cases "documents = [] \<or> batch_id \<in> processed_batch_ids w \<or> validate_documents documents \<noteq> None")
  case True
  then show ?thesis using process_batch_invalid[OF True, of fs now s] assms by auto
next
  case False
  then show ?thesis using process_batch_valid[of documents batch_id w fs now s] assms by auto
qed

lemma process_batch_raises_iff:
  "(\<exists>e. fst (process_batch fs w documents batch_id now s) = Inl e) \<longleftrightarrow>
     (documents = [] \<or> batch_id \<in> processed_batch_ids w \<or> validate_documents documents \<noteq> None)"
proof (cases "documents = [] \<or> batch_id \<in> processed_batch_ids w \<or> validate_documents documents \<noteq> None")
  case True
  then show ?thesis using process_batch_invalid[OF True, of fs now s] by auto
next
  case False
  then show ?thesis using process_batch_valid[of documents batch_id w fs now s] by auto
qed

lemma process_batch_returns:
  assumes "process_batch fs w documents batch_id now s = (Inr r, w', s')"
  shows "pending_batches w' = pending_batches w \<and> w_db w' = w_db w \<and> batch_size w' = batch_size w
     \<and> processed_batch_ids w' = (if br_success r then insert batch_id (processed_batch_ids w) else processed_batch_ids w)
     \<and> (br_success r \<longrightarrow> br_persisted_count r = int (length documents))"
proof (cases "documents = [] \<or> batch_id \<in> processed_batch_ids w \<or> validate_documents documents \<noteq> None")
  case True
  then show ?thesis using process_batch_invalid[OF True, of fs now s] assms by auto
next
  case False
  then show ?thesis using process_batch_valid[of documents batch_id w fs now s] assms by auto
qed

lemma commit_batch_not_pending:
  "pending_batches w = [] \<Longrightarrow>
     commit_batch w batch_id s = (Inl (BatchNotFoundError (''Batch '' @ batch_id @ '' not found'')), w, s)"
  by (simp add: commit_batch_def)

lemma run_call_step:
  assumes "pending_batches w = []" "run_call fs c w s = (out, w', s')"
  shows "pending_batches w' = []
         \<and> processed_batch_ids w' = processed_batch_ids w \<union> successful_ids [c] [out]"
proof (cases c)
  case (ProcessBatch documents batch_id now)
  obtain r w1 s1 where p: "process_batch fs w documents batch_id now s = (r, w1, s1)"
    by (metis prod_cases3)
  show ?thesis
  proof (cases r)
    case (Inl e)
    with p process_batch_raises[of fs w documents batch_id now s e w1 s1] assms ProcessBatch
    show ?thesis by (auto simp: run_call_def)
  next
    case (Inr b)
    with p process_batch_returns[of fs w documents batch_id now s b w1 s1] assms ProcessBatch
    show ?thesis by (auto simp: run_call_def)
  qed
next
  case (CommitBatch batch_id)
  with assms commit_batch_not_pending[OF assms(1), of batch_id s] show ?thesis
    by (auto simp: run_call_def)
qed

lemma run_call_pending:
  "pending_batches w = [] \<Longrightarrow> run_call fs c w s = (out, w', s') \<Longrightarrow> pending_batches w' = []"
  by (rule run_call_step[THEN conjunct1])

lemma run_writer_pending:
  "pending_batches w = [] \<Longrightarrow> run_writer fs cs w s = (outs, w', s') \<Longrightarrow> pending_batches w' = []"
proof (induction cs arbitrary: w s outs w' s')
  case Nil
  then show ?case by simp
next
  case (Cons c cs)
  obtain out w1 s1 where c: "run_call fs c w s = (out, w1, s1)" by (metis prod_cases3)
  obtain outs1 w2 s2 where r: "run_writer fs cs w1 s1 = (outs1, w2, s2)" by (metis prod_cases3)
  from Cons.prems(2) c r have "w' = w2" by simp
  moreover have "pending_batches w1 = []" using run_call_pending[OF Cons.prems(1) c] .
  ultimately show ?case using Cons.IH[OF _ r] by simp
qed

lemma run_call_processed:
  "pending_batches w = [] \<Longrightarrow> run_call fs c w s = (out, w', s') \<Longrightarrow>
     processed_batch_ids w' = processed_batch_ids w \<union> successful_ids [c] [out]"
  by (rule run_call_step[THEN conjunct2])

lemma successful_ids_Cons:
  "successful_ids (c # cs) (out # outs) = successful_ids [c] [out] \<union> successful_ids cs outs"
  by (cases c) auto

lemma run_writer_processed:
  "pending_batches w = [] \<Longrightarrow> run_writer fs cs w s = (outs, w', s') \<Longrightarrow>
     processed_batch_ids w' = processed_batch_ids w \<union> successful_ids cs outs"
proof (induction cs arbitrary: w s outs w' s')
  case Nil
  then show ?case by simp
next
  case (Cons c cs)
  obtain out w1 s1 where c: "run_call fs c w s = (out, w1, s1)" by (metis prod_cases3)
  obtain outs1 w2 s2 where r: "run_writer fs cs w1 s1 = (outs1, w2, s2)" by (metis prod_cases3)
  from Cons.prems(2) c r have eq: "w' = w2" "outs = out # outs1" by simp_all
  have p1: "pending_batches w1 = []" using run_call_pending[OF Cons.prems(1) c] .
  have "processed_batch_ids w2 = processed_batch_ids w1 \<union> successful_ids cs outs1"
    using Cons.IH[OF p1 r] .
  moreover have "processed_batch_ids w1 = processed_batch_ids w \<union> successful_ids [c] [out]"
    using run_call_processed[OF Cons.prems(1) c] .
  ultimately show ?case unfolding eq successful_ids_Cons[of c cs out outs1] by blast
qed

lemma run_writer_commits:
  "pending_batches w = [] \<Longrightarrow> run_writer fs cs w s = (outs, w', s') \<Longrightarrow>
     length outs = length cs \<and>
     (\<forall>i < length cs. \<forall>b. cs ! i = CommitBatch b \<longrightarrow>
        outs ! i = Raised (BatchNotFoundError (''Batch '' @ b @ '' not found'')))"
proof (induction cs arbitrary: w s outs w' s')
  case Nil
  then show ?case by auto
next
  case (Cons c cs)
  obtain out w1 s1 where c: "run_call fs c w s = (out, w1, s1)" by (metis prod_cases3)
  obtain outs1 w2 s2 where r: "run_writer fs cs w1 s1 = (outs1, w2, s2)" by (metis prod_cases3)
  from Cons.prems(2) c r have eq: "outs = out # outs1" by simp
  have p1: "pending_batches w1 = []" using run_call_pending[OF Cons.prems(1) c] .
  have ih: "length outs1 = length cs \<and>
     (\<forall>i < length cs. \<forall>b. cs ! i = CommitBatch b \<longrightarrow>
        outs1 ! i = Raised (BatchNotFoundError (''Batch '' @ b @ '' not found'')))"
    using Cons.IH[OF p1 r] .
  have hd: "\<forall>b. c = CommitBatch b \<longrightarrow> out = Raised (BatchNotFoundError (''Batch '' @ b @ '' not found''))"
    using c commit_batch_not_pending[OF Cons.prems(1)] by (auto simp: run_call_def)
  show ?case unfolding eq using ih hd by (auto simp: nth_Cons split: nat.splits)
qed

text \<open>The definitions a concrete run unfolds.\<close>

lemmas eval_defs = StreamingBatchWriter_init_def CheckpointManager_init_def scripted_storage_def
  fresh_scripted_def quiet_filesystem_def doc_def run_call_def process_batch_def lacks_field_def
  update_checkpoint_def prior_cumulative_def verify_db_count_def persist_to_db_def
  write_checkpoint_file_def to_dict_def scripted_insert_documents_def scripted_save_checkpoint_def
  scripted_get_latest_checkpoint_def scripted_check_connection_def commit_batch_def failed_batch_def
  Let_def

text \<open>
  C10. In every session of a writer created by \<open>__init__\<close>, whatever calls of
  \<open>process_batch\<close> and \<open>commit_batch\<close> came before, the pending set is empty and
  \<open>commit_batch\<close> raises \<open>BatchNotFoundError\<close> for every batch identifier, leaving writer
  and storage alone; so did every \<open>commit_batch\<close> call inside the session.
\<close>

theorem commit_batch_unreachable:
  assumes "run_writer fs calls (StreamingBatchWriter_init db_connection manager max_docs) s = (outs, w, s1)"
  shows "pending_batches w = []
         \<and> commit_batch w batch_id s1
             = (Inl (BatchNotFoundError (''Batch '' @ batch_id @ '' not found'')), w, s1)
         \<and> (\<forall>i < length calls. \<forall>b. calls ! i = CommitBatch b \<longrightarrow>
               outs ! i = Raised (BatchNotFoundError (''Batch '' @ b @ '' not found'')))"
proof -
  have p0: "pending_batches (StreamingBatchWriter_init db_connection manager max_docs) = []"
    by (simp add: StreamingBatchWriter_init_def)
  have p: "pending_batches w = []" using run_writer_pending[OF p0 assms] .
  show ?thesis using p commit_batch_not_pending[OF p] run_writer_commits[OF p0 assms] by simp
qed

text \<open>A session that processes \<open>batch_001\<close> successfully and then tries to commit it.\<close>

theorem commit_batch_unreachable_witness:
  "run_writer quiet_filesystem
        [ProcessBatch [doc ''d1'' ''x''] ''batch_001'' ''t1'', CommitBatch ''batch_001'']
        (StreamingBatchWriter_init (Some scripted_storage)
           (Some (CheckpointManager_init (Some scripted_storage) None)) 100) fresh_scripted
     = ([BatchReturned \<lparr> br_success = True, br_persisted_count = 1, br_batch_id = ''batch_001'',
                          br_checkpoint_updated = True, br_error = None \<rparr>,
         Raised (BatchNotFoundError ''Batch batch_001 not found'')],
        \<lparr> w_db = Some scripted_storage,
          w_checkpoint_manager = Some \<lparr> cm_db = Some scripted_storage, checkpoint_file = None,
             checkpoints = [\<lparr> cp_last_batch_id = ''batch_001'', cp_total_persisted = 1,
                              cp_status = ''committed'', cp_timestamp = ''t1'',
                              cp_db_count_matches = False \<rparr>] \<rparr>,
          batch_size = 100, pending_batches = [], processed_batch_ids = {''batch_001''} \<rparr>,
        fresh_scripted \<lparr> sc_documents := [doc ''d1'' ''x''],
           sc_ledger := [to_dict \<lparr> cp_last_batch_id = ''batch_001'', cp_total_persisted = 1,
                              cp_status = ''committed'', cp_timestamp = ''t1'',
                              cp_db_count_matches = False \<rparr>] \<rparr>)
   \<and> fst (commit_batch
        (fst (snd (run_writer quiet_filesystem
        [ProcessBatch [doc ''d1'' ''x''] ''batch_001'' ''t1'', CommitBatch ''batch_001'']
        (StreamingBatchWriter_init (Some scripted_storage)
           (Some (CheckpointManager_init (Some scripted_storage) None)) 100) fresh_scripted)))
        ''batch_001''
        (snd (snd (run_writer quiet_filesystem
        [ProcessBatch [doc ''d1'' ''x''] ''batch_001'' ''t1'', CommitBatch ''batch_001'']
        (StreamingBatchWriter_init (Some scripted_storage)
           (Some (CheckpointManager_init (Some scripted_storage) None)) 100) fresh_scripted))))
      = Inl (BatchNotFoundError ''Batch batch_001 not found'')"
proof -
  have run: "run_writer quiet_filesystem
        [ProcessBatch [doc ''d1'' ''x''] ''batch_001'' ''t1'', CommitBatch ''batch_001'']
        (StreamingBatchWriter_init (Some scripted_storage)
           (Some (CheckpointManager_init (Some scripted_storage) None)) 100) fresh_scripted
     = ([BatchReturned \<lparr> br_success = True, br_persisted_count = 1, br_batch_id = ''batch_001'',
                          br_checkpoint_updated = True, br_error = None \<rparr>,
         Raised (BatchNotFoundError ''Batch batch_001 not found'')],
        \<lparr> w_db = Some scripted_storage,
          w_checkpoint_manager = Some \<lparr> cm_db = Some scripted_storage, checkpoint_file = None,
             checkpoints = [\<lparr> cp_last_batch_id = ''batch_001'', cp_total_persisted = 1,
                              cp_status = ''committed'', cp_timestamp = ''t1'',
                              cp_db_count_matches = False \<rparr>] \<rparr>,
          batch_size = 100, pending_batches = [], processed_batch_ids = {''batch_001''} \<rparr>,
        fresh_scripted \<lparr> sc_documents := [doc ''d1'' ''x''],
           sc_ledger := [to_dict \<lparr> cp_last_batch_id = ''batch_001'', cp_total_persisted = 1,
                              cp_status = ''committed'', cp_timestamp = ''t1'',
                              cp_db_count_matches = False \<rparr>] \<rparr>)"
    by (simp add: eval_defs)
  show ?thesis using commit_batch_unreachable[OF run, of "''batch_001''"] run by simp
qed

text \<open>
  C6. After any session of a writer, \<open>process_batch\<close> raises exactly when the document
  list is empty, or the batch identifier belongs to a call of the session that returned
  success, or some document lacks \<open>id\<close> or \<open>content\<close> (key missing or \<open>None\<close>). What it
  raises is a \<open>ValueError\<close>, with the message \<open>Batch cannot be empty\<close> for the empty list,
  and the writer (its checkpoint manager included) and the storage are as before the call.
\<close>

theorem process_batch_validation:
  assumes "run_writer fs calls (StreamingBatchWriter_init db_connection manager max_docs) s = (outs, w, s1)"
  shows "((\<exists>e. fst (process_batch fs w documents batch_id now s1) = Inl e) \<longleftrightarrow>
            (documents = [] \<or> batch_id \<in> successful_ids calls outs
             \<or> (\<exists>d \<in> set documents. lacks_field d ''id'' \<or> lacks_field d ''content'')))
         \<and> (\<forall>e. fst (process_batch fs w documents batch_id now s1) = Inl e \<longrightarrow>
               (\<exists>m. e = ValueError m)
               \<and> process_batch fs w documents batch_id now s1 = (Inl e, w, s1))
         \<and> (documents = [] \<longrightarrow>
               process_batch fs w documents batch_id now s1
                 = (Inl (ValueError ''Batch cannot be empty''), w, s1))"
proof -
  have p0: "pending_batches (StreamingBatchWriter_init db_connection manager max_docs) = []"
    by (simp add: StreamingBatchWriter_init_def)
  have ids: "processed_batch_ids w = successful_ids calls outs"
    using run_writer_processed[OF p0 assms] by (simp add: StreamingBatchWriter_init_def)
  have v: "validate_documents documents \<noteq> None \<longleftrightarrow>
             (\<exists>d \<in> set documents. lacks_field d ''id'' \<or> lacks_field d ''content'')"
    by (simp add: validate_documents_None)
  have a: "(\<exists>e. fst (process_batch fs w documents batch_id now s1) = Inl e) \<longleftrightarrow>
            (documents = [] \<or> batch_id \<in> successful_ids calls outs
             \<or> (\<exists>d \<in> set documents. lacks_field d ''id'' \<or> lacks_field d ''content''))"
    unfolding process_batch_raises_iff ids v ..
  have b: "\<forall>e. fst (process_batch fs w documents batch_id now s1) = Inl e \<longrightarrow>
               (\<exists>m. e = ValueError m)
               \<and> process_batch fs w documents batch_id now s1 = (Inl e, w, s1)"
  proof (intro allI impI)
    fix e assume e: "fst (process_batch fs w documents batch_id now s1) = Inl e"
    obtain w' s' where "process_batch fs w documents batch_id now s1 = (Inl e, w', s')"
      using e by (metis fst_conv prod_cases3)
    then show "(\<exists>m. e = ValueError m)
               \<and> process_batch fs w documents batch_id now s1 = (Inl e, w, s1)"
      using process_batch_raises by fastforce
  qed
  have c: "documents = [] \<longrightarrow>
               process_batch fs w documents batch_id now s1
                 = (Inl (ValueError ''Batch cannot be empty''), w, s1)"
    by (simp add: process_batch_def)
  show ?thesis using a b c by blast
qed

text \<open>After \<open>batch_001\<close> succeeded: an empty batch and a repeated identifier raise, a new
  well-formed batch does not.\<close>

theorem process_batch_validation_witness:
  "process_batch quiet_filesystem
     (fst (snd (run_writer quiet_filesystem [ProcessBatch [doc ''d1'' ''x''] ''batch_001'' ''t1'']
        (StreamingBatchWriter_init (Some scripted_storage)
           (Some (CheckpointManager_init (Some scripted_storage) None)) 100) fresh_scripted)))
     [] ''batch_002'' ''t2''
     (snd (snd (run_writer quiet_filesystem [ProcessBatch [doc ''d1'' ''x''] ''batch_001'' ''t1'']
        (StreamingBatchWriter_init (Some scripted_storage)
           (Some (CheckpointManager_init (Some scripted_storage) None)) 100) fresh_scripted)))
   = (Inl (ValueError ''Batch cannot be empty''),
      fst (snd (run_writer quiet_filesystem [ProcessBatch [doc ''d1'' ''x''] ''batch_001'' ''t1'']
        (StreamingBatchWriter_init (Some scripted_storage)
           (Some (CheckpointManager_init (Some scripted_storage) None)) 100) fresh_scripted)),
      snd (snd (run_writer quiet_filesystem [ProcessBatch [doc ''d1'' ''x''] ''batch_001'' ''t1'']
        (StreamingBatchWriter_init (Some scripted_storage)
           (Some (CheckpointManager_init (Some scripted_storage) None)) 100) fresh_scripted)))
   \<and> (\<exists>e. fst (process_batch quiet_filesystem
     (fst (snd (run_writer quiet_filesystem [ProcessBatch [doc ''d1'' ''x''] ''batch_001'' ''t1'']
        (StreamingBatchWriter_init (Some scripted_storage)
           (Some (CheckpointManager_init (Some scripted_storage) None)) 100) fresh_scripted)))
     [doc ''d2'' ''y''] ''batch_001'' ''t2''
     (snd (snd (run_writer quiet_filesystem [ProcessBatch [doc ''d1'' ''x''] ''batch_001'' ''t1'']
        (StreamingBatchWriter_init (Some scripted_storage)
           (Some (CheckpointManager_init (Some scripted_storage) None)) 100) fresh_scripted)))) = Inl e)
   \<and> \<not> (\<exists>e. fst (process_batch quiet_filesystem
     (fst (snd (run_writer quiet_filesystem [ProcessBatch [doc ''d1'' ''x''] ''batch_001'' ''t1'']
        (StreamingBatchWriter_init (Some scripted_storage)
           (Some (CheckpointManager_init (Some scripted_storage) None)) 100) fresh_scripted)))
     [doc ''d2'' ''y''] ''batch_002'' ''t2''
     (snd (snd (run_writer quiet_filesystem [ProcessBatch [doc ''d1'' ''x''] ''batch_001'' ''t1'']
        (StreamingBatchWriter_init (Some scripted_storage)
           (Some (CheckpointManager_init (Some scripted_storage) None)) 100) fresh_scripted)))) = Inl e)"
proof -
  define R where "R = run_writer quiet_filesystem [ProcessBatch [doc ''d1'' ''x''] ''batch_001'' ''t1'']
        (StreamingBatchWriter_init (Some scripted_storage)
           (Some (CheckpointManager_init (Some scripted_storage) None)) 100) fresh_scripted"
  have outs: "fst R = [BatchReturned \<lparr> br_success = True, br_persisted_count = 1,
                    br_batch_id = ''batch_001'', br_checkpoint_updated = True, br_error = None \<rparr>]"
    unfolding R_def by (simp add: eval_defs)
  have run: "run_writer quiet_filesystem [ProcessBatch [doc ''d1'' ''x''] ''batch_001'' ''t1'']
        (StreamingBatchWriter_init (Some scripted_storage)
           (Some (CheckpointManager_init (Some scripted_storage) None)) 100) fresh_scripted
        = (fst R, fst (snd R), snd (snd R))"
    unfolding R_def by simp
  have ids: "successful_ids [ProcessBatch [doc ''d1'' ''x''] ''batch_001'' ''t1''] (fst R) = {''batch_001''}"
    unfolding outs by simp
  have ok: "\<not> (\<exists>d \<in> set [doc ''d2'' ''y'']. lacks_field d ''id'' \<or> lacks_field d ''content'')"
    by (simp add: doc_def lacks_field_def)
  have t1: "process_batch quiet_filesystem (fst (snd R)) [] ''batch_002'' ''t2'' (snd (snd R))
              = (Inl (ValueError ''Batch cannot be empty''), fst (snd R), snd (snd R))"
    using process_batch_validation[OF run, of "[]" "''batch_002''" "''t2''"] by blast
  have t2: "\<exists>e. fst (process_batch quiet_filesystem (fst (snd R)) [doc ''d2'' ''y''] ''batch_001'' ''t2''
              (snd (snd R))) = Inl e"
    using process_batch_validation[OF run, of "[doc ''d2'' ''y'']" "''batch_001''" "''t2''"]
    unfolding ids by blast
  have n3: "\<not> ([doc ''d2'' ''y''] = [] \<or> ''batch_002'' \<in> {''batch_001''}
               \<or> (\<exists>d \<in> set [doc ''d2'' ''y'']. lacks_field d ''id'' \<or> lacks_field d ''content''))"
    using ok by simp
  have t3: "\<not> (\<exists>e. fst (process_batch quiet_filesystem (fst (snd R)) [doc ''d2'' ''y''] ''batch_002'' ''t2''
              (snd (snd R))) = Inl e)"
    using process_batch_validation[OF run, of "[doc ''d2'' ''y'']" "''batch_002''" "''t2''"] n3
    unfolding ids by blast
  show ?thesis unfolding R_def[symmetric] using t1 t2 t3 by blast
qed

text \<open>
  C1 (as amended). When a call passes validation and \<open>insert_documents\<close> raises, the call
  returns a result with \<open>success=False\<close>, \<open>persisted_count=0\<close>, \<open>checkpoint_updated=False\<close>
  and \<open>error\<close> the text of the exception; the writer and its checkpoint manager are
  unchanged, and the storage is as the failing insert left it: no checkpoint is saved.
  An insert of the SQLite wrapper never changes the checkpoint table.
\<close>

theorem process_batch_storage_failure:
  assumes "documents \<noteq> []"
      and "batch_id \<notin> processed_batch_ids w"
      and "\<forall>d \<in> set documents. \<not> lacks_field d ''id'' \<and> \<not> lacks_field d ''content''"
      and "w_db w = Some d"
      and "insert_documents d documents batch_id s = (Inl e, s1)"
  shows "process_batch fs w documents batch_id now s
           = (Inr \<lparr> br_success = False, br_persisted_count = 0, br_batch_id = batch_id,
                    br_checkpoint_updated = False, br_error = Some (str_exn e) \<rparr>, w, s1)
         \<and> checkpoints_table (snd (Database_insert_documents documents batch_id db))
             = checkpoints_table db"
proof -
  have v: "validate_documents documents = None"
    using assms(3) validate_documents_None by blast
  have "checkpoints_table (snd (Database_insert_documents documents batch_id db))
             = checkpoints_table db"
    by (simp add: Database_insert_documents_def split: prod.splits option.splits)
  then show ?thesis using assms v by (simp add: process_batch_def failed_batch_def)
qed

text \<open>The unit test's failing insert.\<close>

theorem process_batch_storage_failure_witness:
  "process_batch quiet_filesystem
     (StreamingBatchWriter_init (Some scripted_storage)
        (Some (CheckpointManager_init (Some scripted_storage) None)) 100)
     [doc ''d1'' ''x''] ''batch_001'' ''t1''
     (fresh_scripted \<lparr> sc_insert_script := [Some (PyException ''DatabaseError'')] \<rparr>)
   = (Inr \<lparr> br_success = False, br_persisted_count = 0, br_batch_id = ''batch_001'',
            br_checkpoint_updated = False, br_error = Some ''DatabaseError'' \<rparr>,
      StreamingBatchWriter_init (Some scripted_storage)
        (Some (CheckpointManager_init (Some scripted_storage) None)) 100,
      fresh_scripted)"
proof -
  have ins: "insert_documents scripted_storage [doc ''d1'' ''x''] ''batch_001''
               (fresh_scripted \<lparr> sc_insert_script := [Some (PyException ''DatabaseError'')] \<rparr>)
             = (Inl (PyException ''DatabaseError''), fresh_scripted)"
    by (simp add: scripted_storage_def scripted_insert_documents_def fresh_scripted_def)
  have v: "\<forall>d \<in> set [doc ''d1'' ''x'']. \<not> lacks_field d ''id'' \<and> \<not> lacks_field d ''content''"
    by (simp add: doc_def lacks_field_def)
  show ?thesis
    using process_batch_storage_failure[OF _ _ v _ ins, of
        "StreamingBatchWriter_init (Some scripted_storage)
          (Some (CheckpointManager_init (Some scripted_storage) None)) 100" quiet_filesystem "''t1''"]
    by (simp add: StreamingBatchWriter_init_def)
qed

text \<open>C1 as stated fails where the exception has no message: the error text is empty.\<close>

theorem process_batch_empty_message_counterexample:
  "fst (insert_documents scripted_storage [doc ''d1'' ''x''] ''batch_001''
          (fresh_scripted \<lparr> sc_insert_script := [Some (PyException [])] \<rparr>))
     = Inl (PyException [])
   \<and> fst (process_batch quiet_filesystem
        (StreamingBatchWriter_init (Some scripted_storage)
           (Some (CheckpointManager_init (Some scripted_storage) None)) 100)
        [doc ''d1'' ''x''] ''batch_001'' ''t1''
        (fresh_scripted \<lparr> sc_insert_script := [Some (PyException [])] \<rparr>))
     = Inr \<lparr> br_success = False, br_persisted_count = 0, br_batch_id = ''batch_001'',
             br_checkpoint_updated = False, br_error = Some [] \<rparr>"
  by (simp add: eval_defs)

subsection \<open>The checkpoint manager\<close>

lemma prior_cumulative_memory:
  "checkpoints cm \<noteq> [] \<Longrightarrow>
     prior_cumulative cm s = (Inr (cp_total_persisted (last (checkpoints cm))), s)"
  by (simp add: prior_cumulative_def)

lemma prior_cumulative_storage:
  assumes "checkpoints cm = []" "cm_db cm = Some d"
      and "fst (get_latest_checkpoint d s) = Inr (PDict entries)"
      and "map_of entries ''total_persisted'' = Some (PInt n)"
  shows "fst (prior_cumulative cm s) = Inr n"
proof -
  obtain s1 where g: "get_latest_checkpoint d s = (Inr (PDict entries), s1)"
    using assms(3) by (metis fst_conv surj_pair)
  from assms(4) have "entries \<noteq> []" by auto
  with assms g show ?thesis by (simp add: prior_cumulative_def)
qed

lemma prior_cumulative_zero:
  assumes "checkpoints cm = []"
      and "cm_db cm = None \<or> (\<exists>d. cm_db cm = Some d \<and> fst (get_latest_checkpoint d s) = Inr PNone)"
  shows "fst (prior_cumulative cm s) = Inr 0"
proof (cases "cm_db cm")
  case None
  with assms show ?thesis by (simp add: prior_cumulative_def)
next
  case (Some d)
  with assms have "fst (get_latest_checkpoint d s) = Inr PNone" by auto
  then obtain s1 where "get_latest_checkpoint d s = (Inr PNone, s1)"
    by (metis fst_conv surj_pair)
  with assms Some show ?thesis by (simp add: prior_cumulative_def)
qed

lemma prior_cumulative_defined:
  assumes "checkpoints cm \<noteq> [] \<or> cm_db cm = None
           \<or> (\<exists>d v. cm_db cm = Some d \<and> fst (get_latest_checkpoint d s) = Inr v \<and> (v = PNone \<or> is_dict v))"
  shows "\<exists>p. fst (prior_cumulative cm s) = Inr p"
proof (cases "checkpoints cm \<noteq> []")
  case True
  then show ?thesis by (simp add: prior_cumulative_memory)
next
  case False
  show ?thesis
  proof (cases "cm_db cm")
    case None
    with False show ?thesis by (simp add: prior_cumulative_def)
  next
    case (Some d)
    with assms False obtain v where v: "fst (get_latest_checkpoint d s) = Inr v" "v = PNone \<or> is_dict v"
      by auto
    then obtain s1 where g: "get_latest_checkpoint d s = (Inr v, s1)"
      by (metis fst_conv surj_pair)
    from v(2) show ?thesis
    proof
      assume "v = PNone"
      with g False Some show ?thesis by (simp add: prior_cumulative_def)
    next
      assume "is_dict v"
      then obtain entries where "v = PDict entries" by (cases v) auto
      with g False Some show ?thesis
        by (auto simp: prior_cumulative_def split: option.splits)
    qed
  qed
qed

lemma update_checkpoint_creates:
  assumes "0 \<le> persisted_count" "\<not> verify_db_state" "fst (prior_cumulative cm s) = Inr p"
  shows "\<exists>cp. checkpoints (fst (snd (update_checkpoint fs cm batch_id persisted_count metadata
                  verify_db_state now s))) = checkpoints cm @ [cp]"
proof -
  obtain s1 where p: "prior_cumulative cm s = (Inr p, s1)"
    using assms(3) by (metis fst_conv surj_pair)
  have v: "verify_db_count cm verify_db_state (persisted_count + p) s1 = (Inr False, s1)"
    using assms(2) by (simp add: verify_db_count_def split: option.splits)
  show ?thesis using assms(1) p v
    by (simp add: update_checkpoint_def Let_def split: prod.splits sum.splits)
qed

lemma update_checkpoint_negative:
  "persisted_count < 0 \<Longrightarrow>
     update_checkpoint fs cm batch_id persisted_count metadata verify_db_state now s
       = (Inl (ValueError ''persisted_count must be non-negative''), cm, s)"
  by (simp add: update_checkpoint_def)

text \<open>
  C3. A call of \<open>update_checkpoint\<close> with a non-negative \<open>persisted_count\<close> either leaves
  the checkpoint list alone and raises, or appends exactly one checkpoint for the batch
  (the one it returns, when it returns). The total of the appended checkpoint is
  \<open>persisted_count\<close> plus: the total of the last in-memory checkpoint when there is one;
  otherwise the integer \<open>total_persisted\<close> of the latest checkpoint that storage returns;
  otherwise (no storage, or storage has no checkpoint) zero. Without verification against
  the database the checkpoint is always appended in these cases. A negative
  \<open>persisted_count\<close> raises \<open>ValueError\<close> and changes nothing.
\<close>

theorem update_checkpoint_cumulative:
  "(0 \<le> persisted_count
      \<and> update_checkpoint fs cm batch_id persisted_count metadata verify_db_state now s = (r, cm', s')
    \<longrightarrow>
      ((checkpoints cm' = checkpoints cm \<and> (\<exists>e. r = Inl e))
        \<or> (\<exists>cp. checkpoints cm' = checkpoints cm @ [cp] \<and> cp_last_batch_id cp = batch_id
                 \<and> (\<forall>c. r = Inr c \<longrightarrow> c = cp)))
    \<and> (\<forall>cp. checkpoints cm' = checkpoints cm @ [cp] \<longrightarrow>
          (checkpoints cm \<noteq> [] \<longrightarrow>
             cp_total_persisted cp = persisted_count + cp_total_persisted (last (checkpoints cm)))
        \<and> (\<forall>d entries n. checkpoints cm = [] \<and> cm_db cm = Some d
               \<and> fst (get_latest_checkpoint d s) = Inr (PDict entries)
               \<and> map_of entries ''total_persisted'' = Some (PInt n) \<longrightarrow>
             cp_total_persisted cp = persisted_count + n)
        \<and> (checkpoints cm = []
               \<and> (cm_db cm = None
                    \<or> (\<exists>d. cm_db cm = Some d \<and> fst (get_latest_checkpoint d s) = Inr PNone)) \<longrightarrow>
             cp_total_persisted cp = persisted_count))
    \<and> (\<not> verify_db_state
          \<and> (checkpoints cm \<noteq> [] \<or> cm_db cm = None
               \<or> (\<exists>d v. cm_db cm = Some d \<and> fst (get_latest_checkpoint d s) = Inr v
                         \<and> (v = PNone \<or> is_dict v))) \<longrightarrow>
        (\<exists>cp. checkpoints cm' = checkpoints cm @ [cp])))
   \<and> (persisted_count < 0 \<longrightarrow>
        update_checkpoint fs cm batch_id persisted_count metadata verify_db_state now s
          = (Inl (ValueError ''persisted_count must be non-negative''), cm, s))"
proof (intro conjI impI)
  assume a: "0 \<le> persisted_count
      \<and> update_checkpoint fs cm batch_id persisted_count metadata verify_db_state now s = (r, cm', s')"
  then have u: "update_checkpoint fs cm batch_id persisted_count metadata verify_db_state now s = (r, cm', s')"
    by simp
  note sh = update_checkpoint_shape[OF u]
  from sh show "(checkpoints cm' = checkpoints cm \<and> (\<exists>e. r = Inl e))
        \<or> (\<exists>cp. checkpoints cm' = checkpoints cm @ [cp] \<and> cp_last_batch_id cp = batch_id
                 \<and> (\<forall>c. r = Inr c \<longrightarrow> c = cp))"
    by blast
  show "\<forall>cp. checkpoints cm' = checkpoints cm @ [cp] \<longrightarrow>
          (checkpoints cm \<noteq> [] \<longrightarrow>
             cp_total_persisted cp = persisted_count + cp_total_persisted (last (checkpoints cm)))
        \<and> (\<forall>d entries n. checkpoints cm = [] \<and> cm_db cm = Some d
               \<and> fst (get_latest_checkpoint d s) = Inr (PDict entries)
               \<and> map_of entries ''total_persisted'' = Some (PInt n) \<longrightarrow>
             cp_total_persisted cp = persisted_count + n)
        \<and> (checkpoints cm = []
               \<and> (cm_db cm = None
                    \<or> (\<exists>d. cm_db cm = Some d \<and> fst (get_latest_checkpoint d s) = Inr PNone)) \<longrightarrow>
             cp_total_persisted cp = persisted_count)"
  proof (intro allI impI)
    fix cp assume c: "checkpoints cm' = checkpoints cm @ [cp]"
    with sh have pr: "fst (prior_cumulative cm s) = Inr (cp_total_persisted cp - persisted_count)"
      by auto
    have 1: "checkpoints cm \<noteq> [] \<longrightarrow>
             cp_total_persisted cp = persisted_count + cp_total_persisted (last (checkpoints cm))"
      using pr by (auto simp: prior_cumulative_memory)
    have 2: "\<forall>d entries n. checkpoints cm = [] \<and> cm_db cm = Some d
               \<and> fst (get_latest_checkpoint d s) = Inr (PDict entries)
               \<and> map_of entries ''total_persisted'' = Some (PInt n) \<longrightarrow>
             cp_total_persisted cp = persisted_count + n"
    proof (intro allI impI)
      fix d entries n
      assume h: "checkpoints cm = [] \<and> cm_db cm = Some d
               \<and> fst (get_latest_checkpoint d s) = Inr (PDict entries)
               \<and> map_of entries ''total_persisted'' = Some (PInt n)"
      then have "fst (prior_cumulative cm s) = Inr n"
        using prior_cumulative_storage[of cm d s entries n] by blast
      with pr show "cp_total_persisted cp = persisted_count + n" by simp
    qed
    have 3: "checkpoints cm = []
               \<and> (cm_db cm = None
                    \<or> (\<exists>d. cm_db cm = Some d \<and> fst (get_latest_checkpoint d s) = Inr PNone)) \<longrightarrow>
             cp_total_persisted cp = persisted_count"
    proof
      assume h: "checkpoints cm = []
               \<and> (cm_db cm = None
                    \<or> (\<exists>d. cm_db cm = Some d \<and> fst (get_latest_checkpoint d s) = Inr PNone))"
      then have "fst (prior_cumulative cm s) = Inr 0"
        using prior_cumulative_zero[of cm s] by blast
      with pr show "cp_total_persisted cp = persisted_count" by simp
    qed
    from 1 2 3 show "(checkpoints cm \<noteq> [] \<longrightarrow>
             cp_total_persisted cp = persisted_count + cp_total_persisted (last (checkpoints cm)))
        \<and> (\<forall>d entries n. checkpoints cm = [] \<and> cm_db cm = Some d
               \<and> fst (get_latest_checkpoint d s) = Inr (PDict entries)
               \<and> map_of entries ''total_persisted'' = Some (PInt n) \<longrightarrow>
             cp_total_persisted cp = persisted_count + n)
        \<and> (checkpoints cm = []
               \<and> (cm_db cm = None
                    \<or> (\<exists>d. cm_db cm = Some d \<and> fst (get_latest_checkpoint d s) = Inr PNone)) \<longrightarrow>
             cp_total_persisted cp = persisted_count)"
      by blast
  qed
  show "\<exists>cp. checkpoints cm' = checkpoints cm @ [cp]"
    if h: "\<not> verify_db_state
          \<and> (checkpoints cm \<noteq> [] \<or> cm_db cm = None
               \<or> (\<exists>d v. cm_db cm = Some d \<and> fst (get_latest_checkpoint d s) = Inr v
                         \<and> (v = PNone \<or> is_dict v)))"
  proof -
    from h obtain p where "fst (prior_cumulative cm s) = Inr p"
      using prior_cumulative_defined[of cm s] by blast
    then show ?thesis
      using update_checkpoint_creates[of persisted_count verify_db_state cm s p fs batch_id metadata now]
        a h by simp
  qed
next
  assume "persisted_count < 0"
  then show "update_checkpoint fs cm batch_id persisted_count metadata verify_db_state now s
          = (Inl (ValueError ''persisted_count must be non-negative''), cm, s)"
    by (rule update_checkpoint_negative)
qed

text \<open>The three sources of the prior value, each at a concrete call (in the first one the
  storage also holds a checkpoint, which is not consulted), and a negative count.\<close>

theorem update_checkpoint_cumulative_witness:
  "(\<exists>cp. checkpoints (fst (snd (update_checkpoint quiet_filesystem
            ((CheckpointManager_init (Some scripted_storage) None)
               \<lparr> checkpoints := [\<lparr> cp_last_batch_id = ''batch_001'', cp_total_persisted = 100,
                     cp_status = ''committed'', cp_timestamp = ''t1'', cp_db_count_matches = False \<rparr>] \<rparr>)
            ''batch_002'' 50 None False ''t2''
            (fresh_scripted \<lparr> sc_ledger := [[(''last_batch_id'', PStr ''batch_009''),
                                              (''total_persisted'', PInt 900)]] \<rparr>))))
         = [\<lparr> cp_last_batch_id = ''batch_001'', cp_total_persisted = 100,
              cp_status = ''committed'', cp_timestamp = ''t1'', cp_db_count_matches = False \<rparr>, cp]
        \<and> cp_total_persisted cp = 150)
   \<and> (\<exists>cp. checkpoints (fst (snd (update_checkpoint quiet_filesystem
            (CheckpointManager_init (Some scripted_storage) None)
            ''batch_005'' 100 None False ''t5''
            (fresh_scripted \<lparr> sc_ledger := [[(''last_batch_id'', PStr ''batch_004''),
                                              (''total_persisted'', PInt 400)]] \<rparr>)))) = [cp]
        \<and> cp_total_persisted cp = 500)
   \<and> (\<exists>cp. checkpoints (fst (snd (update_checkpoint quiet_filesystem
            (CheckpointManager_init (Some scripted_storage) None)
            ''batch_001'' 100 None False ''t1'' fresh_scripted))) = [cp]
        \<and> cp_total_persisted cp = 100)
   \<and> update_checkpoint quiet_filesystem (CheckpointManager_init (Some scripted_storage) None)
         ''batch_001'' (- 1) None False ''t1'' fresh_scripted
       = (Inl (ValueError ''persisted_count must be non-negative''),
          CheckpointManager_init (Some scripted_storage) None, fresh_scripted)"
proof -
  let ?c1 = "\<lparr> cp_last_batch_id = ''batch_001'', cp_total_persisted = 100,
                     cp_status = ''committed'', cp_timestamp = ''t1'', cp_db_count_matches = False \<rparr>"
  let ?cmA = "(CheckpointManager_init (Some scripted_storage) None) \<lparr> checkpoints := [?c1] \<rparr>"
  let ?sA = "fresh_scripted \<lparr> sc_ledger := [[(''last_batch_id'', PStr ''batch_009''),
                                              (''total_persisted'', PInt 900)]] \<rparr>"
  let ?cm0 = "CheckpointManager_init (Some scripted_storage) None :: scripted CheckpointManager"
  let ?sB = "fresh_scripted \<lparr> sc_ledger := [[(''last_batch_id'', PStr ''batch_004''),
                                              (''total_persisted'', PInt 400)]] \<rparr>"
  define UA where "UA = update_checkpoint quiet_filesystem ?cmA ''batch_002'' 50 None False ''t2'' ?sA"
  define UB where "UB = update_checkpoint quiet_filesystem ?cm0 ''batch_005'' 100 None False ''t5'' ?sB"
  define UC where "UC = update_checkpoint quiet_filesystem ?cm0 ''batch_001'' 100 None False ''t1'' fresh_scripted"
  have eqA: "update_checkpoint quiet_filesystem ?cmA ''batch_002'' 50 None False ''t2'' ?sA
               = (fst UA, fst (snd UA), snd (snd UA))" by (simp add: UA_def)
  have eqB: "update_checkpoint quiet_filesystem ?cm0 ''batch_005'' 100 None False ''t5'' ?sB
               = (fst UB, fst (snd UB), snd (snd UB))" by (simp add: UB_def)
  have eqC: "update_checkpoint quiet_filesystem ?cm0 ''batch_001'' 100 None False ''t1'' fresh_scripted
               = (fst UC, fst (snd UC), snd (snd UC))" by (simp add: UC_def)
  have cA: "checkpoints ?cmA = [?c1]" by simp
  have c0: "checkpoints ?cm0 = []" "cm_db ?cm0 = Some scripted_storage"
    by (simp_all add: CheckpointManager_init_def)
  have gB: "fst (get_latest_checkpoint scripted_storage ?sB)
              = Inr (PDict [(''last_batch_id'', PStr ''batch_004''), (''total_persisted'', PInt 400)])"
    by (simp add: scripted_storage_def scripted_get_latest_checkpoint_def fresh_scripted_def)
  have mB: "map_of [(''last_batch_id'', PStr ''batch_004''), (''total_persisted'', PInt 400)]
              ''total_persisted'' = Some (PInt 400)" by simp
  have gC: "fst (get_latest_checkpoint scripted_storage fresh_scripted) = Inr PNone"
    by (simp add: scripted_storage_def scripted_get_latest_checkpoint_def fresh_scripted_def)
  have TA: "\<exists>cp. checkpoints (fst (snd UA)) = [?c1, cp] \<and> cp_total_persisted cp = 150"
  proof -
    note T = update_checkpoint_cumulative[THEN conjunct1, THEN mp, OF conjI[OF _ eqA]]
    have T': "(\<forall>cp. checkpoints (fst (snd UA)) = checkpoints ?cmA @ [cp] \<longrightarrow>
               (checkpoints ?cmA \<noteq> [] \<longrightarrow> cp_total_persisted cp = 50 + cp_total_persisted (last (checkpoints ?cmA))))
             \<and> (\<exists>cp. checkpoints (fst (snd UA)) = checkpoints ?cmA @ [cp])"
      using T by simp
    then obtain cp where "checkpoints (fst (snd UA)) = checkpoints ?cmA @ [cp]" by blast
    with T' show ?thesis by auto
  qed
  have TB: "\<exists>cp. checkpoints (fst (snd UB)) = [cp] \<and> cp_total_persisted cp = 500"
  proof -
    note T = update_checkpoint_cumulative[THEN conjunct1, THEN mp, OF conjI[OF _ eqB]]
    have cr: "\<exists>cp. checkpoints (fst (snd UB)) = checkpoints ?cm0 @ [cp]"
      using T[THEN conjunct2, THEN conjunct2] c0 gB by (simp add: exI[of _ scripted_storage])
    then obtain cp where cp: "checkpoints (fst (snd UB)) = checkpoints ?cm0 @ [cp]" by blast
    have "cp_total_persisted cp = 100 + 400"
      using T[THEN conjunct2, THEN conjunct1, rule_format, OF _ cp, THEN conjunct2, THEN conjunct1,
              rule_format, of scripted_storage _ 400] c0 gB mB by simp
    with cp c0 show ?thesis by simp
  qed
  have TC: "\<exists>cp. checkpoints (fst (snd UC)) = [cp] \<and> cp_total_persisted cp = 100"
  proof -
    note T = update_checkpoint_cumulative[THEN conjunct1, THEN mp, OF conjI[OF _ eqC]]
    have cr: "\<exists>cp. checkpoints (fst (snd UC)) = checkpoints ?cm0 @ [cp]"
      using T[THEN conjunct2, THEN conjunct2] c0 gC by (simp add: exI[of _ scripted_storage])
    then obtain cp where cp: "checkpoints (fst (snd UC)) = checkpoints ?cm0 @ [cp]" by blast
    have "cp_total_persisted cp = 100"
      using T[THEN conjunct2, THEN conjunct1, rule_format, OF _ cp, THEN conjunct2, THEN conjunct2]
            c0 gC by simp
    with cp c0 show ?thesis by simp
  qed
  have TD: "update_checkpoint quiet_filesystem ?cm0 ''batch_001'' (- 1) None False ''t1'' fresh_scripted
       = (Inl (ValueError ''persisted_count must be non-negative''), ?cm0, fresh_scripted)"
    using update_checkpoint_cumulative[THEN conjunct2, of "- 1"] by simp
  show ?thesis using TA TB TC TD unfolding UA_def UB_def UC_def by blast
qed

lemma adjacent_snoc:
  assumes "adjacent_nondecreasing cps" "cps \<noteq> [] \<longrightarrow> cp_total_persisted (last cps) \<le> cp_total_persisted cp"
  shows "adjacent_nondecreasing (cps @ [cp])"
  unfolding adjacent_nondecreasing_def
proof (intro allI impI)
  fix i assume i: "Suc i < length (cps @ [cp])"
  show "cp_total_persisted ((cps @ [cp]) ! i) \<le> cp_total_persisted ((cps @ [cp]) ! Suc i)"
  proof (cases "Suc i < length cps")
    case True
    with assms(1) show ?thesis by (simp add: adjacent_nondecreasing_def nth_append)
  next
    case False
    with i have e: "Suc i = length cps" by simp
    then have ne: "cps \<noteq> []" by auto
    have il: "i = length cps - 1" "i < length cps" using e by simp_all
    have "(cps @ [cp]) ! i = last cps" using il ne by (simp add: nth_append last_conv_nth)
    moreover have "(cps @ [cp]) ! Suc i = cp" using e by (simp add: nth_append)
    ultimately show ?thesis using assms(2) ne by simp
  qed
qed

lemma update_checkpoint_monotone:
  assumes "update_checkpoint fs cm batch_id persisted_count metadata verify_db_state now s = (r, cm', s')"
      and "adjacent_nondecreasing (checkpoints cm)"
  shows "adjacent_nondecreasing (checkpoints cm')"
proof -
  from update_checkpoint_shape[OF assms(1)]
  consider (same) "checkpoints cm' = checkpoints cm"
    | (grown) cp where "checkpoints cm' = checkpoints cm @ [cp]" "0 \<le> persisted_count"
        "fst (prior_cumulative cm s) = Inr (cp_total_persisted cp - persisted_count)"
    by blast
  then show ?thesis
  proof cases
    case same
    with assms(2) show ?thesis by simp
  next
    case grown
    have "checkpoints cm \<noteq> [] \<longrightarrow> cp_total_persisted (last (checkpoints cm)) \<le> cp_total_persisted cp"
      using grown(2,3) by (auto simp: prior_cumulative_memory)
    with assms(2) grown(1) show ?thesis by (simp add: adjacent_snoc)
  qed
qed

lemma run_updates_monotone:
  "run_updates fs calls cm s = (rs, cm', s') \<Longrightarrow> adjacent_nondecreasing (checkpoints cm) \<Longrightarrow>
     adjacent_nondecreasing (checkpoints cm')"
proof (induction calls arbitrary: cm s rs cm' s')
  case Nil
  then show ?case by simp
next
  case (Cons c calls)
  obtain batch_id persisted_count metadata verify_db_state now
    where c: "c = UpdateCheckpoint batch_id persisted_count metadata verify_db_state now"
    by (cases c) auto
  obtain r cm1 s1 where u: "update_checkpoint fs cm batch_id persisted_count metadata verify_db_state now s = (r, cm1, s1)"
    by (metis prod_cases3)
  obtain rs1 cm2 s2 where r: "run_updates fs calls cm1 s1 = (rs1, cm2, s2)" by (metis prod_cases3)
  from Cons.prems(1) c u r have "cm' = cm2" by simp
  moreover have "adjacent_nondecreasing (checkpoints cm1)"
    using update_checkpoint_monotone[OF u Cons.prems(2)] .
  ultimately show ?case using Cons.IH[OF r] by simp
qed

text \<open>
  C7. In every session of a checkpoint manager created by \<open>__init__\<close>, whatever the calls
  of \<open>update_checkpoint\<close> and whatever storage does, each checkpoint of the in-memory list
  has a total at least that of the checkpoint appended immediately before it.
\<close>

theorem total_persisted_monotone:
  assumes "run_updates fs calls (CheckpointManager_init db_connection file) s = (rs, cm, s1)"
  shows "\<forall>i. Suc i < length (checkpoints cm) \<longrightarrow>
           cp_total_persisted (checkpoints cm ! i) \<le> cp_total_persisted (checkpoints cm ! Suc i)"
proof -
  have "adjacent_nondecreasing (checkpoints (CheckpointManager_init db_connection file))"
    by (simp add: adjacent_nondecreasing_def CheckpointManager_init_def)
  from run_updates_monotone[OF assms this] show ?thesis
    by (simp add: adjacent_nondecreasing_def)
qed

text \<open>A session with an empty batch, a rejected negative count and a verified update.\<close>

theorem total_persisted_monotone_witness:
  "map cp_total_persisted (checkpoints (fst (snd (run_updates quiet_filesystem
       [UpdateCheckpoint ''batch_001'' 100 None False ''t1'',
        UpdateCheckpoint ''batch_002'' 0 None False ''t2'',
        UpdateCheckpoint ''batch_003'' (- 5) None False ''t3'',
        UpdateCheckpoint ''batch_004'' 30 None True ''t4'']
       (CheckpointManager_init (Some scripted_storage) None) fresh_scripted)))) = [100, 100, 130]
   \<and> cp_total_persisted (checkpoints (fst (snd (run_updates quiet_filesystem
       [UpdateCheckpoint ''batch_001'' 100 None False ''t1'',
        UpdateCheckpoint ''batch_002'' 0 None False ''t2'',
        UpdateCheckpoint ''batch_003'' (- 5) None False ''t3'',
        UpdateCheckpoint ''batch_004'' 30 None True ''t4'']
       (CheckpointManager_init (Some scripted_storage) None) fresh_scripted))) ! 0)
       \<le> cp_total_persisted (checkpoints (fst (snd (run_updates quiet_filesystem
       [UpdateCheckpoint ''batch_001'' 100 None False ''t1'',
        UpdateCheckpoint ''batch_002'' 0 None False ''t2'',
        UpdateCheckpoint ''batch_003'' (- 5) None False ''t3'',
        UpdateCheckpoint ''batch_004'' 30 None True ''t4'']
       (CheckpointManager_init (Some scripted_storage) None) fresh_scripted))) ! Suc 0)
   \<and> cp_total_persisted (checkpoints (fst (snd (run_updates quiet_filesystem
       [UpdateCheckpoint ''batch_001'' 100 None False ''t1'',
        UpdateCheckpoint ''batch_002'' 0 None False ''t2'',
        UpdateCheckpoint ''batch_003'' (- 5) None False ''t3'',
        UpdateCheckpoint ''batch_004'' 30 None True ''t4'']
       (CheckpointManager_init (Some scripted_storage) None) fresh_scripted))) ! Suc 0)
       \<le> cp_total_persisted (checkpoints (fst (snd (run_updates quiet_filesystem
       [UpdateCheckpoint ''batch_001'' 100 None False ''t1'',
        UpdateCheckpoint ''batch_002'' 0 None False ''t2'',
        UpdateCheckpoint ''batch_003'' (- 5) None False ''t3'',
        UpdateCheckpoint ''batch_004'' 30 None True ''t4'']
       (CheckpointManager_init (Some scripted_storage) None) fresh_scripted))) ! Suc (Suc 0))"
proof -
  define R where "R = run_updates quiet_filesystem
       [UpdateCheckpoint ''batch_001'' 100 None False ''t1'',
        UpdateCheckpoint ''batch_002'' 0 None False ''t2'',
        UpdateCheckpoint ''batch_003'' (- 5) None False ''t3'',
        UpdateCheckpoint ''batch_004'' 30 None True ''t4'']
       (CheckpointManager_init (Some scripted_storage) None) fresh_scripted"
  have run: "run_updates quiet_filesystem
       [UpdateCheckpoint ''batch_001'' 100 None False ''t1'',
        UpdateCheckpoint ''batch_002'' 0 None False ''t2'',
        UpdateCheckpoint ''batch_003'' (- 5) None False ''t3'',
        UpdateCheckpoint ''batch_004'' 30 None True ''t4'']
       (CheckpointManager_init (Some scripted_storage) None) fresh_scripted
     = (fst R, fst (snd R), snd (snd R))" by (simp add: R_def)
  have v: "map cp_total_persisted (checkpoints (fst (snd R))) = [100, 100, 130]"
    unfolding R_def by (simp add: eval_defs)
  have "length (map cp_total_persisted (checkpoints (fst (snd R)))) = length [100::int, 100, 130]"
    by (simp only: v)
  then have l: "length (checkpoints (fst (snd R))) = Suc (Suc (Suc 0))" by simp
  have a: "cp_total_persisted (checkpoints (fst (snd R)) ! 0)
             \<le> cp_total_persisted (checkpoints (fst (snd R)) ! Suc 0)"
    using total_persisted_monotone[OF run, rule_format, of 0] l by simp
  have b: "cp_total_persisted (checkpoints (fst (snd R)) ! Suc 0)
             \<le> cp_total_persisted (checkpoints (fst (snd R)) ! Suc (Suc 0))"
    using total_persisted_monotone[OF run, rule_format, of "Suc 0"] l by simp
  show ?thesis unfolding R_def[symmetric] using v a b by blast
qed

subsection \<open>A checkpoint that was appended but not saved\<close>

lemma get_recovery_point_memory:
  assumes "cm_db cm = Some d" "get_latest_checkpoint d sa = (Inr PNone, sb)"
      and "checkpoints cm \<noteq> []" "0 \<le> cp_total_persisted (last (checkpoints cm))"
  shows "get_recovery_point cm sa
           = (Inr \<lparr> rp_last_batch_id = PStr (cp_last_batch_id (last (checkpoints cm))),
                    rp_total_persisted = PInt (cp_total_persisted (last (checkpoints cm))),
                    rp_can_resume = True \<rparr>, sb)"
  using assms
  by (simp add: get_recovery_point_def to_dict_def py_lt_zero_def RecoveryPoint_init_def)

text \<open>
  C9. When \<open>update_checkpoint\<close> has computed its checkpoint and \<open>save_checkpoint\<close> raises,
  the call raises too (\<open>ConflictError\<close> when the message mentions a conflict, the original
  exception otherwise) and the checkpoint stays at the end of the in-memory list. Any later
  \<open>update_checkpoint\<close> on that manager that appends a checkpoint computes its total from
  the unsaved one, and \<open>get_recovery_point\<close> returns the unsaved checkpoint whenever storage
  reports no checkpoint (its total being non-negative).
\<close>

theorem update_checkpoint_not_atomic:
  assumes "0 \<le> persisted_count"
      and "prior_cumulative cm s = (Inr prior, s1)"
      and "verify_db_count cm verify_db_state (persisted_count + prior) s1 = (Inr matches, s2)"
      and "cm_db cm = Some d"
      and "cp = \<lparr> cp_last_batch_id = batch_id, cp_total_persisted = persisted_count + prior,
                   cp_status = ''committed'', cp_timestamp = now, cp_db_count_matches = matches \<rparr>"
      and "save_checkpoint d (to_dict cp) s2 = (Inl e, s3)"
  shows "update_checkpoint fs cm batch_id persisted_count metadata verify_db_state now s
           = (Inl (if py_contains ''concurrent'' (py_lower (str_exn e))
                      \<or> py_contains ''conflict'' (py_lower (str_exn e))
                   then ConflictError ''Concurrent update detected'' else e),
              cm \<lparr> checkpoints := checkpoints cm @ [cp] \<rparr>, s3)
         \<and> (\<forall>fs' batch_id' n metadata' verify' now' sa r cm2 sb.
               update_checkpoint fs' (cm \<lparr> checkpoints := checkpoints cm @ [cp] \<rparr>)
                   batch_id' n metadata' verify' now' sa = (r, cm2, sb)
               \<and> checkpoints cm2 \<noteq> checkpoints cm @ [cp] \<longrightarrow>
               (\<exists>cp2. checkpoints cm2 = checkpoints cm @ [cp, cp2]
                      \<and> cp_total_persisted cp2 = n + cp_total_persisted cp))
         \<and> (\<forall>sa sb. get_latest_checkpoint d sa = (Inr PNone, sb)
                      \<and> 0 \<le> persisted_count + prior \<longrightarrow>
               get_recovery_point (cm \<lparr> checkpoints := checkpoints cm @ [cp] \<rparr>) sa
                 = (Inr \<lparr> rp_last_batch_id = PStr batch_id,
                          rp_total_persisted = PInt (persisted_count + prior),
                          rp_can_resume = True \<rparr>, sb))"
proof (intro conjI allI impI)
  let ?cm1 = "cm \<lparr> checkpoints := checkpoints cm @ [cp] \<rparr>"
  have pd: "persist_to_db ?cm1 cp s2
              = (Inl (if py_contains ''concurrent'' (py_lower (str_exn e))
                      \<or> py_contains ''conflict'' (py_lower (str_exn e))
                   then ConflictError ''Concurrent update detected'' else e), s3)"
    using assms(4,6) by (simp add: persist_to_db_def)
  show "update_checkpoint fs cm batch_id persisted_count metadata verify_db_state now s
           = (Inl (if py_contains ''concurrent'' (py_lower (str_exn e))
                      \<or> py_contains ''conflict'' (py_lower (str_exn e))
                   then ConflictError ''Concurrent update detected'' else e), ?cm1, s3)"
    using assms(1,2,3) pd unfolding assms(5)
    by (simp add: update_checkpoint_def Let_def)
next
  fix fs' batch_id' n metadata' verify' now' sa r cm2 sb
  let ?cm1 = "cm \<lparr> checkpoints := checkpoints cm @ [cp] \<rparr>"
  assume a: "update_checkpoint fs' ?cm1 batch_id' n metadata' verify' now' sa = (r, cm2, sb)
               \<and> checkpoints cm2 \<noteq> checkpoints cm @ [cp]"
  then have u: "update_checkpoint fs' ?cm1 batch_id' n metadata' verify' now' sa = (r, cm2, sb)"
    by simp
  from update_checkpoint_shape[OF u] a
  obtain cp2 where c2: "checkpoints cm2 = checkpoints ?cm1 @ [cp2]"
      "fst (prior_cumulative ?cm1 sa) = Inr (cp_total_persisted cp2 - n)"
    by auto
  have "fst (prior_cumulative ?cm1 sa) = Inr (cp_total_persisted cp)"
    by (simp add: prior_cumulative_def)
  with c2 have "cp_total_persisted cp2 = n + cp_total_persisted cp" by simp
  with c2(1) show "\<exists>cp2. checkpoints cm2 = checkpoints cm @ [cp, cp2]
                      \<and> cp_total_persisted cp2 = n + cp_total_persisted cp"
    by simp
next
  fix sa sb
  let ?cm1 = "cm \<lparr> checkpoints := checkpoints cm @ [cp] \<rparr>"
  assume a: "get_latest_checkpoint d sa = (Inr PNone, sb) \<and> 0 \<le> persisted_count + prior"
  have "get_recovery_point ?cm1 sa
           = (Inr \<lparr> rp_last_batch_id = PStr (cp_last_batch_id (last (checkpoints ?cm1))),
                    rp_total_persisted = PInt (cp_total_persisted (last (checkpoints ?cm1))),
                    rp_can_resume = True \<rparr>, sb)"
    using get_recovery_point_memory[of ?cm1 d sa sb] assms(4) a by (simp add: assms(5))
  then show "get_recovery_point ?cm1 sa
                 = (Inr \<lparr> rp_last_batch_id = PStr batch_id,
                          rp_total_persisted = PInt (persisted_count + prior),
                          rp_can_resume = True \<rparr>, sb)"
    by (simp add: assms(5))
qed

text \<open>A save that fails with a conflict message on a fresh manager and empty ledger.\<close>

theorem update_checkpoint_not_atomic_witness:
  "update_checkpoint quiet_filesystem (CheckpointManager_init (Some scripted_storage) None)
       ''batch_001'' 100 None False ''t1''
       (fresh_scripted \<lparr> sc_save_script := [Some (PyException ''Conflict: row changed'')] \<rparr>)
     = (Inl (ConflictError ''Concurrent update detected''),
        (CheckpointManager_init (Some scripted_storage) None)
          \<lparr> checkpoints := [\<lparr> cp_last_batch_id = ''batch_001'', cp_total_persisted = 100,
                cp_status = ''committed'', cp_timestamp = ''t1'', cp_db_count_matches = False \<rparr>] \<rparr>,
        fresh_scripted)
   \<and> sc_ledger fresh_scripted = []
   \<and> get_recovery_point
        ((CheckpointManager_init (Some scripted_storage) None)
          \<lparr> checkpoints := [\<lparr> cp_last_batch_id = ''batch_001'', cp_total_persisted = 100,
                cp_status = ''committed'', cp_timestamp = ''t1'', cp_db_count_matches = False \<rparr>] \<rparr>)
        fresh_scripted
     = (Inr \<lparr> rp_last_batch_id = PStr ''batch_001'', rp_total_persisted = PInt 100,
              rp_can_resume = True \<rparr>, fresh_scripted)
   \<and> (\<exists>cp2. checkpoints (fst (snd (update_checkpoint quiet_filesystem
          ((CheckpointManager_init (Some scripted_storage) None)
            \<lparr> checkpoints := [\<lparr> cp_last_batch_id = ''batch_001'', cp_total_persisted = 100,
                cp_status = ''committed'', cp_timestamp = ''t1'', cp_db_count_matches = False \<rparr>] \<rparr>)
          ''batch_002'' 50 None False ''t2'' fresh_scripted)))
        = [\<lparr> cp_last_batch_id = ''batch_001'', cp_total_persisted = 100,
                cp_status = ''committed'', cp_timestamp = ''t1'', cp_db_count_matches = False \<rparr>, cp2]
       \<and> cp_total_persisted cp2 = 150)"
proof -
  let ?cm0 = "CheckpointManager_init (Some scripted_storage) None :: scripted CheckpointManager"
  let ?cp = "\<lparr> cp_last_batch_id = ''batch_001'', cp_total_persisted = 100 + 0,
                cp_status = ''committed'', cp_timestamp = ''t1'', cp_db_count_matches = False \<rparr>"
  let ?s = "fresh_scripted \<lparr> sc_save_script := [Some (PyException ''Conflict: row changed'')] \<rparr>"
  let ?cm1 = "?cm0 \<lparr> checkpoints := checkpoints ?cm0 @ [?cp] \<rparr>"
  have h2: "prior_cumulative ?cm0 ?s = (Inr 0, ?s)"
    by (simp add: prior_cumulative_def CheckpointManager_init_def scripted_storage_def
          scripted_get_latest_checkpoint_def fresh_scripted_def)
  have h3: "verify_db_count ?cm0 False (100 + 0) ?s = (Inr False, ?s)"
    by (simp add: verify_db_count_def CheckpointManager_init_def)
  have h4: "cm_db ?cm0 = Some scripted_storage" by (simp add: CheckpointManager_init_def)
  have h6: "save_checkpoint scripted_storage (to_dict ?cp) ?s
              = (Inl (PyException ''Conflict: row changed''), fresh_scripted)"
    by (simp add: scripted_storage_def scripted_save_checkpoint_def fresh_scripted_def)
  have low: "py_contains ''conflict'' (py_lower (str_exn (PyException ''Conflict: row changed'')))"
    by code_simp
  have g: "get_latest_checkpoint scripted_storage fresh_scripted = (Inr PNone, fresh_scripted)"
    by (simp add: scripted_storage_def scripted_get_latest_checkpoint_def fresh_scripted_def)
  have h1: "(0::int) \<le> 100" by simp
  note T = update_checkpoint_not_atomic[OF h1 h2 h3 h4 refl h6, where fs = quiet_filesystem and metadata = None]
  have c1: "checkpoints ?cm0 @ [?cp] = [?cp]" by (simp add: CheckpointManager_init_def)
  have a: "update_checkpoint quiet_filesystem ?cm0 ''batch_001'' 100 None False ''t1'' ?s
             = (Inl (ConflictError ''Concurrent update detected''), ?cm1, fresh_scripted)"
    using T[THEN conjunct1] low by simp
  have b: "get_recovery_point ?cm1 fresh_scripted
             = (Inr \<lparr> rp_last_batch_id = PStr ''batch_001'', rp_total_persisted = PInt (100 + 0),
                      rp_can_resume = True \<rparr>, fresh_scripted)"
    using T[THEN conjunct2, THEN conjunct2, rule_format, of fresh_scripted fresh_scripted] g by simp
  define U where "U = update_checkpoint quiet_filesystem ?cm1 ''batch_002'' 50 None False ''t2'' fresh_scripted"
  have eqU: "update_checkpoint quiet_filesystem ?cm1 ''batch_002'' 50 None False ''t2'' fresh_scripted
               = (fst U, fst (snd U), snd (snd U))" by (simp add: U_def)
  have grown: "checkpoints (fst (snd U)) \<noteq> checkpoints ?cm0 @ [?cp]"
    unfolding U_def by (simp add: eval_defs)
  have c: "\<exists>cp2. checkpoints (fst (snd U)) = checkpoints ?cm0 @ [?cp, cp2]
                 \<and> cp_total_persisted cp2 = 50 + cp_total_persisted ?cp"
    using T[THEN conjunct2, THEN conjunct1, rule_format, OF conjI[OF eqU grown]] .
  have l: "sc_ledger fresh_scripted = []" by (simp add: fresh_scripted_def)
  show ?thesis using a b c l unfolding U_def by (simp add: CheckpointManager_init_def)
qed

text \<open>
  C2 fails on the code. In this session the first batch's documents are inserted, its
  \<open>save_checkpoint\<close> raises, and \<open>process_batch\<close> reports failure with
  \<open>persisted_count = 0\<close>; the checkpoint of the second, successful batch has
  \<open>total_persisted = 5\<close>, while the successful calls persisted 3.
\<close>

theorem failed_save_counted_in_next_total:
  "run_writer quiet_filesystem
     [ProcessBatch [doc ''d1'' ''a'', doc ''d2'' ''b''] ''batch_001'' ''t1'',
      ProcessBatch [doc ''d3'' ''c'', doc ''d4'' ''d'', doc ''d5'' ''e''] ''batch_002'' ''t2'']
     (StreamingBatchWriter_init (Some scripted_storage)
        (Some (CheckpointManager_init (Some scripted_storage) None)) 100)
     (fresh_scripted \<lparr> sc_save_script := [Some (PyException ''database is locked'')] \<rparr>)
   = ([BatchReturned \<lparr> br_success = False, br_persisted_count = 0, br_batch_id = ''batch_001'',
                        br_checkpoint_updated = False, br_error = Some ''database is locked'' \<rparr>,
       BatchReturned \<lparr> br_success = True, br_persisted_count = 3, br_batch_id = ''batch_002'',
                        br_checkpoint_updated = True, br_error = None \<rparr>],
      \<lparr> w_db = Some scripted_storage,
        w_checkpoint_manager = Some \<lparr> cm_db = Some scripted_storage, checkpoint_file = None,
           checkpoints = [\<lparr> cp_last_batch_id = ''batch_001'', cp_total_persisted = 2,
                            cp_status = ''committed'', cp_timestamp = ''t1'',
                            cp_db_count_matches = False \<rparr>,
                          \<lparr> cp_last_batch_id = ''batch_002'', cp_total_persisted = 5,
                            cp_status = ''committed'', cp_timestamp = ''t2'',
                            cp_db_count_matches = False \<rparr>] \<rparr>,
        batch_size = 100, pending_batches = [], processed_batch_ids = {''batch_002''} \<rparr>,
      fresh_scripted \<lparr> sc_documents := [doc ''d1'' ''a'', doc ''d2'' ''b'', doc ''d3'' ''c'',
                                          doc ''d4'' ''d'', doc ''d5'' ''e''],
         sc_ledger := [to_dict \<lparr> cp_last_batch_id = ''batch_002'', cp_total_persisted = 5,
                            cp_status = ''committed'', cp_timestamp = ''t2'',
                            cp_db_count_matches = False \<rparr>] \<rparr>)
   \<and> successful_total
        [BatchReturned \<lparr> br_success = False, br_persisted_count = 0, br_batch_id = ''batch_001'',
                        br_checkpoint_updated = False, br_error = Some ''database is locked'' \<rparr>,
         BatchReturned \<lparr> br_success = True, br_persisted_count = 3, br_batch_id = ''batch_002'',
                        br_checkpoint_updated = True, br_error = None \<rparr>] = 3"
proof -
  have nl: "\<not> py_contains ''concurrent'' (py_lower ''database is locked'')
            \<and> \<not> py_contains ''conflict'' (py_lower ''database is locked'')"
    by code_simp
  show ?thesis by (simp add: eval_defs nl)
qed

subsection \<open>Recovery\<close>

lemma recover_try_structured:
  "recover_try h s = (Inr r, s1) \<Longrightarrow>
     rr_success r \<or> (rr_data_loss r = None \<and> (\<exists>m. rr_error r = Some m))"
  by (auto simp: recover_try_def failed_recovery_def split: option.splits prod.splits sum.splits if_splits)

lemma recover_try_unavailable:
  "h_db h = Some d \<Longrightarrow> check_connection d s = (Inl e, s1) \<Longrightarrow>
     recover_try h s = (Inr (failed_recovery (''Database unavailable: '' @ str_exn e)), s1)"
  by (simp add: recover_try_def)

lemma recover_try_manager_raises:
  assumes "(h_db h = None \<and> s1 = s) \<or> (\<exists>d alive. h_db h = Some d \<and> check_connection d s = (Inr alive, s1))"
      and "h_checkpoint_manager h = Some cm" "get_recovery_point cm s1 = (Inl e, s2)"
  shows "recover_try h s = (if is_CorruptCheckpointError e
                            then Inr (failed_recovery (''corrupt checkpoint: '' @ str_exn e))
                            else Inl e, s2)"
  using assms by (auto simp: recover_try_def)

text \<open>
  C5 (as amended). \<open>recover\<close> always returns a result. When \<open>check_connection\<close> raises,
  the result is a failure whose error is \<open>Database unavailable: \<close> followed by the
  exception text, with \<open>data_loss\<close> unknown. When the probe returns (whatever value) and
  \<open>get_recovery_point\<close> raises, the result is a failure with \<open>corrupt checkpoint: \<close> and
  the text for a \<open>CorruptCheckpointError\<close>, and with the exception text alone otherwise.
  Every exception that reaches the outer handler gives a failure with its text; and every
  result is a success or has \<open>data_loss\<close> unknown and an error message.
\<close>

theorem recover_never_raises:
  "(\<forall>d e s1. h_db h = Some d \<and> check_connection d s = (Inl e, s1) \<longrightarrow>
       recover h s = (\<lparr> rr_success = False, rr_recovered_batches = 0, rr_resume_from = None,
                        rr_data_loss = None, rr_partial_batch_discarded = False,
                        rr_error = Some (''Database unavailable: '' @ str_exn e),
                        rr_can_resume = False \<rparr>, s1))
   \<and> (\<forall>cm e s1 s2.
         ((h_db h = None \<and> s1 = s)
            \<or> (\<exists>d alive. h_db h = Some d \<and> check_connection d s = (Inr alive, s1)))
         \<and> h_checkpoint_manager h = Some cm \<and> get_recovery_point cm s1 = (Inl e, s2) \<longrightarrow>
       recover h s = (\<lparr> rr_success = False, rr_recovered_batches = 0, rr_resume_from = None,
                        rr_data_loss = None, rr_partial_batch_discarded = False,
                        rr_error = Some (if is_CorruptCheckpointError e
                                         then ''corrupt checkpoint: '' @ str_exn e else str_exn e),
                        rr_can_resume = False \<rparr>, s2))
   \<and> (\<forall>e s1. recover_try h s = (Inl e, s1) \<longrightarrow>
       recover h s = (\<lparr> rr_success = False, rr_recovered_batches = 0, rr_resume_from = None,
                        rr_data_loss = None, rr_partial_batch_discarded = False,
                        rr_error = Some (str_exn e), rr_can_resume = False \<rparr>, s1))
   \<and> (rr_success (fst (recover h s))
        \<or> (rr_data_loss (fst (recover h s)) = None \<and> (\<exists>m. rr_error (fst (recover h s)) = Some m)))"
proof (intro conjI allI impI)
  fix d e s1 assume "h_db h = Some d \<and> check_connection d s = (Inl e, s1)"
  then show "recover h s = (\<lparr> rr_success = False, rr_recovered_batches = 0, rr_resume_from = None,
                        rr_data_loss = None, rr_partial_batch_discarded = False,
                        rr_error = Some (''Database unavailable: '' @ str_exn e),
                        rr_can_resume = False \<rparr>, s1)"
    using recover_try_unavailable[of h d s e s1] by (simp add: recover_def failed_recovery_def)
next
  fix cm e s1 s2
  assume a: "((h_db h = None \<and> s1 = s)
            \<or> (\<exists>d alive. h_db h = Some d \<and> check_connection d s = (Inr alive, s1)))
         \<and> h_checkpoint_manager h = Some cm \<and> get_recovery_point cm s1 = (Inl e, s2)"
  then have "recover_try h s = (if is_CorruptCheckpointError e
                            then Inr (failed_recovery (''corrupt checkpoint: '' @ str_exn e))
                            else Inl e, s2)"
    using recover_try_manager_raises[of h s1 s cm e s2] by blast
  then show "recover h s = (\<lparr> rr_success = False, rr_recovered_batches = 0, rr_resume_from = None,
                        rr_data_loss = None, rr_partial_batch_discarded = False,
                        rr_error = Some (if is_CorruptCheckpointError e
                                         then ''corrupt checkpoint: '' @ str_exn e else str_exn e),
                        rr_can_resume = False \<rparr>, s2)"
    by (simp add: recover_def failed_recovery_def)
next
  fix e s1 assume "recover_try h s = (Inl e, s1)"
  then show "recover h s = (\<lparr> rr_success = False, rr_recovered_batches = 0, rr_resume_from = None,
                        rr_data_loss = None, rr_partial_batch_discarded = False,
                        rr_error = Some (str_exn e), rr_can_resume = False \<rparr>, s1)"
    by (simp add: recover_def failed_recovery_def)
next
  obtain r s1 where t: "recover_try h s = (r, s1)" by (metis surj_pair)
  show "rr_success (fst (recover h s))
        \<or> (rr_data_loss (fst (recover h s)) = None \<and> (\<exists>m. rr_error (fst (recover h s)) = Some m))"
  proof (cases r)
    case (Inl e)
    with t show ?thesis by (simp add: recover_def failed_recovery_def)
  next
    case (Inr res)
    with t recover_try_structured[of h s res s1] show ?thesis by (simp add: recover_def)
  qed
qed

text \<open>A probe that raises; and a closed SQLite connection, whose probe returns \<open>False\<close>
  without raising, so that the failure is the one of the first query.\<close>

theorem recover_never_raises_witness:
  "recover \<lparr> h_checkpoint_manager = Some (CheckpointManager_init (Some scripted_storage) None),
             h_db = Some scripted_storage \<rparr>
      (fresh_scripted \<lparr> sc_check_script := [Some (DatabaseUnavailableError ''connection refused'')] \<rparr>)
     = (\<lparr> rr_success = False, rr_recovered_batches = 0, rr_resume_from = None,
           rr_data_loss = None, rr_partial_batch_discarded = False,
           rr_error = Some ''Database unavailable: connection refused'',
           rr_can_resume = False \<rparr>, fresh_scripted)
   \<and> Database_check_connection
        \<lparr> documents_table = [], checkpoints_table = [], closed = True, current_timestamp = ''t0'' \<rparr>
     = (Inr False,
        \<lparr> documents_table = [], checkpoints_table = [], closed = True, current_timestamp = ''t0'' \<rparr>)
   \<and> recover \<lparr> h_checkpoint_manager = Some (CheckpointManager_init (Some Database_storage) None),
               h_db = Some Database_storage \<rparr>
        \<lparr> documents_table = [], checkpoints_table = [], closed = True, current_timestamp = ''t0'' \<rparr>
     = (\<lparr> rr_success = False, rr_recovered_batches = 0, rr_resume_from = None,
           rr_data_loss = None, rr_partial_batch_discarded = False,
           rr_error = Some ''Cannot operate on a closed database.'',
           rr_can_resume = False \<rparr>,
        \<lparr> documents_table = [], checkpoints_table = [], closed = True, current_timestamp = ''t0'' \<rparr>)"
proof -
  let ?h = "\<lparr> h_checkpoint_manager = Some (CheckpointManager_init (Some scripted_storage) None),
             h_db = Some scripted_storage \<rparr>"
  let ?s = "fresh_scripted \<lparr> sc_check_script := [Some (DatabaseUnavailableError ''connection refused'')] \<rparr>"
  let ?hd = "\<lparr> h_checkpoint_manager = Some (CheckpointManager_init (Some Database_storage) None),
               h_db = Some Database_storage \<rparr>"
  let ?db = "\<lparr> documents_table = [], checkpoints_table = [], closed = True, current_timestamp = ''t0'' \<rparr>"
  have c: "check_connection scripted_storage ?s
             = (Inl (DatabaseUnavailableError ''connection refused''), fresh_scripted)"
    by (simp add: scripted_storage_def scripted_check_connection_def fresh_scripted_def)
  have a: "recover ?h ?s
     = (\<lparr> rr_success = False, rr_recovered_batches = 0, rr_resume_from = None,
           rr_data_loss = None, rr_partial_batch_discarded = False,
           rr_error = Some ''Database unavailable: connection refused'',
           rr_can_resume = False \<rparr>, fresh_scripted)"
    using recover_never_raises[THEN conjunct1, rule_format, of ?h scripted_storage ?s _ fresh_scripted] c
    by simp
  have k: "check_connection Database_storage ?db = (Inr False, ?db)"
    by (simp add: Database_storage_def Database_check_connection_def)
  have g: "get_recovery_point (CheckpointManager_init (Some Database_storage) None) ?db
             = (Inl closed_error, ?db)"
    by (simp add: get_recovery_point_def CheckpointManager_init_def Database_storage_def
          Database_get_latest_checkpoint_def)
  have hyp: "((h_db ?hd = None \<and> ?db = ?db)
            \<or> (\<exists>d alive. h_db ?hd = Some d \<and> check_connection d ?db = (Inr alive, ?db)))
         \<and> h_checkpoint_manager ?hd = Some (CheckpointManager_init (Some Database_storage) None)
         \<and> get_recovery_point (CheckpointManager_init (Some Database_storage) None) ?db
             = (Inl closed_error, ?db)"
    using k g by auto
  have b: "recover ?hd ?db
     = (\<lparr> rr_success = False, rr_recovered_batches = 0, rr_resume_from = None,
           rr_data_loss = None, rr_partial_batch_discarded = False,
           rr_error = Some ''Cannot operate on a closed database.'',
           rr_can_resume = False \<rparr>, ?db)"
    using recover_never_raises[THEN conjunct2, THEN conjunct1, rule_format, OF hyp]
    by (simp add: closed_error_def)
  have k': "Database_check_connection ?db = (Inr False, ?db)"
    by (simp add: Database_check_connection_def)
  show ?thesis using a b k' by blast
qed

text \<open>C5 as stated fails: with the exception of the unit test the message begins
  \<open>Database unavailable: \<close>, not \<open>storage unavailable: \<close>.\<close>

theorem recover_unavailable_prefix_counterexample:
  "fst (check_connection scripted_storage
          (fresh_scripted \<lparr> sc_check_script := [Some (DatabaseUnavailableError [])] \<rparr>))
     = Inl (DatabaseUnavailableError [])
   \<and> rr_error (fst (recover
        \<lparr> h_checkpoint_manager = Some (CheckpointManager_init (Some scripted_storage) None),
          h_db = Some scripted_storage \<rparr>
        (fresh_scripted \<lparr> sc_check_script := [Some (DatabaseUnavailableError [])] \<rparr>)))
     = Some ''Database unavailable: ''
   \<and> \<not> prefix ''storage unavailable: '' ''Database unavailable: ''"
  by (simp add: recover_def recover_try_def failed_recovery_def scripted_storage_def
        scripted_check_connection_def fresh_scripted_def)

subsection \<open>Idempotence of recovery on the SQLite wrapper\<close>

lemma has_test_split:
  "(if c then (case p of None \<Rightarrow> if d then True else h | Some k \<Rightarrow> if (n::int) < k then True else h) else h)
     = ((if c then (case p of Some k \<Rightarrow> n < k | None \<Rightarrow> d) else False) \<or> h)"
  by (cases p) auto

lemma discard_test_split:
  "(if c then (case p of None \<Rightarrow> if d then y else x | Some k \<Rightarrow> if (n::int) < k then y else x)
         else if d then y else x)
     = (if (if c then (case p of Some k \<Rightarrow> n < k | None \<Rightarrow> d) else d) then y else x)"
  by (cases p) auto

lemma has_partial_loop_Cons:
  "has_partial_loop l n (b # bs) = (flagged_by_has l n b \<or> has_partial_loop l n bs)"
  unfolding has_partial_loop.simps Let_def flagged_by_has_def by (rule has_test_split)

lemma discard_loop_Cons:
  "discard_loop l n (b # bs) rows
     = (if flagged_by_discard l n b then discard_loop l n bs (delete_batch b rows)
        else discard_loop l n bs rows)"
  unfolding discard_loop.simps Let_def flagged_by_discard_def by (rule discard_test_split)

lemma flagged_by_has_discard: "flagged_by_has l n b \<Longrightarrow> flagged_by_discard l n b"
  unfolding flagged_by_has_def flagged_by_discard_def by (simp split: if_splits)

declare has_partial_loop.simps(2) [simp del] discard_loop.simps(2) [simp del]

lemma has_partial_loop_iff:
  "has_partial_loop l n bs = (\<exists>b \<in> set bs. flagged_by_has l n b)"
  by (induction bs) (simp_all add: has_partial_loop_Cons)

lemma discard_loop_filter:
  "discard_loop l n bs rows
     = filter (\<lambda>r. \<not> (row_batch_id r \<in> set bs \<and> flagged_by_discard l n (row_batch_id r))) rows"
proof (induction bs arbitrary: rows)
  case Nil
  then show ?case by simp
next
  case (Cons b bs)
  show ?case
  proof (cases "flagged_by_discard l n b")
    case True
    have "discard_loop l n (b # bs) rows = discard_loop l n bs (delete_batch b rows)"
      using True by (simp add: discard_loop_Cons)
    also have "\<dots> = filter (\<lambda>r. \<not> (row_batch_id r \<in> set bs \<and> flagged_by_discard l n (row_batch_id r)))
                        (filter (\<lambda>r. row_batch_id r \<noteq> b) rows)"
      by (simp add: Cons.IH delete_batch_def)
    also have "\<dots> = filter (\<lambda>r. \<not> (row_batch_id r \<in> set (b # bs) \<and> flagged_by_discard l n (row_batch_id r))) rows"
      using True by (auto intro: filter_cong)
    finally show ?thesis .
  next
    case False
    have "discard_loop l n (b # bs) rows = discard_loop l n bs rows"
      using False by (simp add: discard_loop_Cons)
    also have "\<dots> = filter (\<lambda>r. \<not> (row_batch_id r \<in> set (b # bs) \<and> flagged_by_discard l n (row_batch_id r))) rows"
      using False by (auto simp: Cons.IH intro: filter_cong)
    finally show ?thesis .
  qed
qed

lemma no_partial_after_discard:
  "\<not> has_partial_loop l n
       (remdups (map row_batch_id (discard_loop l n (remdups (map row_batch_id rows)) rows)))"
  by (auto simp: has_partial_loop_iff discard_loop_filter dest: flagged_by_has_discard)

lemma Database_has_partial_closed:
  "closed db \<Longrightarrow> Database_has_partial_batch db = (Inl closed_error, db)"
  by (simp add: Database_has_partial_batch_def)

lemma Database_has_partial_no_checkpoint:
  "\<not> closed db \<Longrightarrow> checkpoints_table db = [] \<Longrightarrow>
     Database_has_partial_batch db = (Inr (documents_table db \<noteq> []), db)"
  by (simp add: Database_has_partial_batch_def Database_get_latest_checkpoint_def)

lemma Database_discard_no_checkpoint:
  "\<not> closed db \<Longrightarrow> checkpoints_table db = [] \<Longrightarrow>
     Database_discard_partial_batch db = (Inr (), db \<lparr> documents_table := [] \<rparr>)"
  by (simp add: Database_discard_partial_batch_def Database_get_latest_checkpoint_def)

lemma Database_has_partial_checkpoint:
  "\<not> closed db \<Longrightarrow> checkpoints_table db \<noteq> [] \<Longrightarrow>
   ck_last_batch_id (last (checkpoints_table db)) = PStr l \<Longrightarrow>
     Database_has_partial_batch db
       = (Inr (has_partial_loop l (last_batch_number l)
                 (remdups (map row_batch_id (documents_table db)))), db)"
  by (simp add: Database_has_partial_batch_def Database_get_latest_checkpoint_def Let_def)

lemma Database_discard_checkpoint:
  "\<not> closed db \<Longrightarrow> checkpoints_table db \<noteq> [] \<Longrightarrow>
   ck_last_batch_id (last (checkpoints_table db)) = PStr l \<Longrightarrow>
     Database_discard_partial_batch db
       = (Inr (), db \<lparr> documents_table :=
                          discard_loop l (last_batch_number l)
                            (remdups (map row_batch_id (documents_table db))) (documents_table db) \<rparr>)"
  by (simp add: Database_discard_partial_batch_def Database_get_latest_checkpoint_def Let_def)

lemma Database_has_partial_other:
  "\<not> closed db \<Longrightarrow> checkpoints_table db \<noteq> [] \<Longrightarrow>
   \<forall>l. ck_last_batch_id (last (checkpoints_table db)) \<noteq> PStr l \<Longrightarrow>
     \<exists>e. Database_has_partial_batch db = (Inl e, db)"
  by (cases "ck_last_batch_id (last (checkpoints_table db))")
     (simp_all add: Database_has_partial_batch_def Database_get_latest_checkpoint_def Let_def)

lemma check_partial_batch_Database:
  "h_db h = Some Database_storage \<Longrightarrow>
     check_partial_batch h db
       = (case Database_has_partial_batch db of
            (Inl e, s1) \<Rightarrow> (Inl e, s1)
          | (Inr partial, s1) \<Rightarrow>
              if partial
              then (case Database_discard_partial_batch s1 of
                      (Inl e, s2) \<Rightarrow> (Inl e, s2)
                    | (Inr u, s2) \<Rightarrow> (Inr True, s2))
              else (Inr False, s1))"
proof -
  assume h: "h_db h = Some Database_storage"
  have a: "has_partial_batch Database_storage = Some Database_has_partial_batch"
          "discard_partial_batch Database_storage = Some Database_discard_partial_batch"
    by (simp_all add: Database_storage_def)
  show ?thesis by (simp add: check_partial_batch_def h a split: prod.splits sum.splits)
qed

lemma check_partial_batch_cases:
  assumes "h_db h = Some Database_storage"
  shows "(\<exists>e. check_partial_batch h db = (Inl e, db))
         \<or> check_partial_batch h db = (Inr False, db)
         \<or> (\<exists>db'. check_partial_batch h db = (Inr True, db')
                   \<and> closed db' = closed db \<and> checkpoints_table db' = checkpoints_table db
                   \<and> check_partial_batch h db' = (Inr False, db'))"
proof (cases "closed db")
  case True
  then show ?thesis
    by (simp add: check_partial_batch_Database[OF assms] Database_has_partial_closed)
next
  case opened: False
  show ?thesis
  proof (cases "checkpoints_table db = []")
    case True
    show ?thesis
    proof (cases "documents_table db = []")
      case True
      with opened \<open>checkpoints_table db = []\<close> show ?thesis
        by (simp add: check_partial_batch_Database[OF assms] Database_has_partial_no_checkpoint)
    next
      case False
      let ?db' = "db \<lparr> documents_table := [] \<rparr>"
      have 1: "check_partial_batch h db = (Inr True, ?db')"
        using opened True False
        by (simp add: check_partial_batch_Database[OF assms] Database_has_partial_no_checkpoint
              Database_discard_no_checkpoint)
      have 2: "check_partial_batch h ?db' = (Inr False, ?db')"
        using opened True
        by (simp add: check_partial_batch_Database[OF assms] Database_has_partial_no_checkpoint)
      from 1 2 show ?thesis by auto
    qed
  next
    case False
    show ?thesis
    proof (cases "\<exists>l. ck_last_batch_id (last (checkpoints_table db)) = PStr l")
      case False
      then obtain e where "Database_has_partial_batch db = (Inl e, db)"
        using Database_has_partial_other[OF opened \<open>checkpoints_table db \<noteq> []\<close>] by auto
      then show ?thesis by (simp add: check_partial_batch_Database[OF assms])
    next
      case True
      then obtain l where l: "ck_last_batch_id (last (checkpoints_table db)) = PStr l" by blast
      let ?ids = "remdups (map row_batch_id (documents_table db))"
      let ?n = "last_batch_number l"
      show ?thesis
      proof (cases "has_partial_loop l ?n ?ids")
        case False
        then show ?thesis
          using opened \<open>checkpoints_table db \<noteq> []\<close> l
          by (simp add: check_partial_batch_Database[OF assms] Database_has_partial_checkpoint)
      next
        case True
        let ?db' = "db \<lparr> documents_table := discard_loop l ?n ?ids (documents_table db) \<rparr>"
        have 1: "check_partial_batch h db = (Inr True, ?db')"
          using opened \<open>checkpoints_table db \<noteq> []\<close> l True
          by (simp add: check_partial_batch_Database[OF assms] Database_has_partial_checkpoint
                Database_discard_checkpoint)
        have o': "\<not> closed ?db'" "checkpoints_table ?db' \<noteq> []"
            "ck_last_batch_id (last (checkpoints_table ?db')) = PStr l"
          using opened \<open>checkpoints_table db \<noteq> []\<close> l by simp_all
        have 2: "check_partial_batch h ?db' = (Inr False, ?db')"
          by (simp add: check_partial_batch_Database[OF assms]
                Database_has_partial_checkpoint[OF o'] no_partial_after_discard)
        from 1 2 show ?thesis by auto
      qed
    qed
  qed
qed

lemma get_recovery_point_reads:
  assumes "(case cm_db cm of None \<Rightarrow> (Inr PNone, s) | Some d \<Rightarrow> get_latest_checkpoint d s) = (x, s)"
      and "(case cm_db cm of None \<Rightarrow> (Inr PNone, s') | Some d \<Rightarrow> get_latest_checkpoint d s') = (x, s')"
  shows "get_recovery_point cm s = (fst (get_recovery_point cm s), s)
         \<and> get_recovery_point cm s' = (fst (get_recovery_point cm s), s')"
  unfolding get_recovery_point_def assms
  by (auto simp: Let_def split: sum.splits pyval.splits option.splits)

lemma Database_latest_reads:
  assumes "cm_db cm = None \<or> cm_db cm = Some Database_storage"
      and "closed db' = closed db" "checkpoints_table db' = checkpoints_table db"
  shows "\<exists>x. (case cm_db cm of None \<Rightarrow> (Inr PNone, db) | Some d \<Rightarrow> get_latest_checkpoint d db) = (x, db)
           \<and> (case cm_db cm of None \<Rightarrow> (Inr PNone, db') | Some d \<Rightarrow> get_latest_checkpoint d db') = (x, db')"
proof -
  have g: "get_latest_checkpoint Database_storage = Database_get_latest_checkpoint"
    by (simp add: Database_storage_def)
  from assms(1) show ?thesis
  proof
    assume "cm_db cm = None"
    then show ?thesis by simp
  next
    assume "cm_db cm = Some Database_storage"
    then show ?thesis using assms(2,3)
      by (simp add: g Database_get_latest_checkpoint_def Let_def)
  qed
qed

lemma get_recovery_point_Database:
  assumes "cm_db cm = None \<or> cm_db cm = Some Database_storage"
      and "closed db' = closed db" "checkpoints_table db' = checkpoints_table db"
  shows "get_recovery_point cm db = (fst (get_recovery_point cm db), db)
         \<and> get_recovery_point cm db' = (fst (get_recovery_point cm db), db')"
  using Database_latest_reads[OF assms] get_recovery_point_reads[where cm = cm and s = db and s' = db'] by blast

lemma recover_unfold:
  assumes "h_db h = Some d" "check_connection d s = (Inr alive, s1)" "h_checkpoint_manager h = Some cm"
      and "get_recovery_point cm s1 = (Inr rp, s2)" "rp_can_resume rp"
      and "recovered_batch_count rp = Inr n" "check_partial_batch h s2 = (Inr p, s3)"
  shows "recover h s
           = (case resume_from rp of
                Inl e \<Rightarrow> failed_recovery (str_exn e)
              | Inr next_id \<Rightarrow>
                  \<lparr> rr_success = True, rr_recovered_batches = n, rr_resume_from = next_id,
                    rr_data_loss = Some 0, rr_partial_batch_discarded = p, rr_error = None,
                    rr_can_resume = True \<rparr>, s3)"
  using assms by (simp add: recover_def recover_try_def split: sum.splits)

lemma recover_early:
  assumes "h_db h = Some d" "check_connection d s = (Inr alive, s1)" "h_checkpoint_manager h = Some cm"
      and "get_recovery_point cm s1 = (g, s2)"
      and "(\<exists>e. g = Inl e) \<or> (\<exists>rp. g = Inr rp \<and> (\<not> rp_can_resume rp \<or> (\<exists>e. recovered_batch_count rp = Inl e)))"
  shows "\<exists>r. recover h s = (r, s2) \<and> \<not> rr_partial_batch_discarded r"
  using assms
  by (auto simp: recover_def recover_try_def failed_recovery_def split: sum.splits)

lemma recover_partial_raises:
  assumes "h_db h = Some d" "check_connection d s = (Inr alive, s1)" "h_checkpoint_manager h = Some cm"
      and "get_recovery_point cm s1 = (Inr rp, s2)" "rp_can_resume rp"
      and "recovered_batch_count rp = Inr n" "check_partial_batch h s2 = (Inl e, s3)"
  shows "recover h s = (failed_recovery (str_exn e), s3)"
  using assms by (simp add: recover_def recover_try_def)

lemma recover_no_manager:
  assumes "h_db h = Some d" "check_connection d s = (Inr alive, s1)" "h_checkpoint_manager h = None"
  shows "recover h s = (failed_recovery (str_exn (no_attribute PNone ''get_recovery_point'')), s1)"
  using assms by (simp add: recover_def recover_try_def)

lemma recover_Database_cases:
  assumes hdb: "h_db h = Some Database_storage"
      and mg: "\<forall>cm. h_checkpoint_manager h = Some cm \<longrightarrow>
                 cm_db cm = None \<or> cm_db cm = Some Database_storage"
  shows "(\<exists>r. recover h db = (r, db) \<and> \<not> rr_partial_batch_discarded r)
         \<or> (\<exists>r1 r2 db'. recover h db = (r1, db') \<and> recover h db' = (r2, db')
               \<and> rr_resume_from r2 = rr_resume_from r1
               \<and> rr_recovered_batches r2 = rr_recovered_batches r1
               \<and> \<not> rr_partial_batch_discarded r2)"
proof -
  have cc: "\<And>x. check_connection Database_storage x = (Inr (\<not> closed x), x)"
    by (simp add: Database_storage_def Database_check_connection_def)
  show ?thesis
  proof (cases "h_checkpoint_manager h")
    case None
    then show ?thesis
      using recover_no_manager[OF hdb cc None] by (simp add: failed_recovery_def)
  next
    case (Some cm)
    with mg have cmdb: "cm_db cm = None \<or> cm_db cm = Some Database_storage" by blast
    define g where "g = fst (get_recovery_point cm db)"
    have g0: "get_recovery_point cm db = (g, db)"
      using get_recovery_point_Database[OF cmdb refl refl, of db] by (simp add: g_def)
    show ?thesis
    proof (cases "(\<exists>e. g = Inl e) \<or> (\<exists>rp. g = Inr rp \<and> (\<not> rp_can_resume rp \<or> (\<exists>e. recovered_batch_count rp = Inl e)))")
      case True
      then show ?thesis using recover_early[OF hdb cc Some g0] by blast
    next
      case False
      then obtain rp n where rp: "g = Inr rp" "rp_can_resume rp" "recovered_batch_count rp = Inr n"
        by (cases g; cases "recovered_batch_count (projr g)") auto
      from check_partial_batch_cases[OF hdb, of db]
      consider (raises) e where "check_partial_batch h db = (Inl e, db)"
        | (none) "check_partial_batch h db = (Inr False, db)"
        | (discarded) db' where "check_partial_batch h db = (Inr True, db')"
            "closed db' = closed db" "checkpoints_table db' = checkpoints_table db"
            "check_partial_batch h db' = (Inr False, db')"
        by blast
      then show ?thesis
      proof cases
        case raises
        then show ?thesis
          using recover_partial_raises[OF hdb cc Some g0[unfolded rp(1)] rp(2,3)]
          by (simp add: failed_recovery_def)
      next
        case none
        have "recover h db
           = (case resume_from rp of
                Inl e \<Rightarrow> failed_recovery (str_exn e)
              | Inr next_id \<Rightarrow>
                  \<lparr> rr_success = True, rr_recovered_batches = n, rr_resume_from = next_id,
                    rr_data_loss = Some 0, rr_partial_batch_discarded = False, rr_error = None,
                    rr_can_resume = True \<rparr>, db)"
          using recover_unfold[OF hdb cc Some g0[unfolded rp(1)] rp(2,3) none] .
        then show ?thesis by (auto simp: failed_recovery_def split: sum.splits)
      next
        case discarded
        have g1: "get_recovery_point cm db' = (Inr rp, db')"
          using get_recovery_point_Database[OF cmdb discarded(2,3)] rp(1) by (simp add: g_def)
        have 1: "recover h db
           = (case resume_from rp of
                Inl e \<Rightarrow> failed_recovery (str_exn e)
              | Inr next_id \<Rightarrow>
                  \<lparr> rr_success = True, rr_recovered_batches = n, rr_resume_from = next_id,
                    rr_data_loss = Some 0, rr_partial_batch_discarded = True, rr_error = None,
                    rr_can_resume = True \<rparr>, db')"
          using recover_unfold[OF hdb cc Some g0[unfolded rp(1)] rp(2,3) discarded(1)] .
        have 2: "recover h db'
           = (case resume_from rp of
                Inl e \<Rightarrow> failed_recovery (str_exn e)
              | Inr next_id \<Rightarrow>
                  \<lparr> rr_success = True, rr_recovered_batches = n, rr_resume_from = next_id,
                    rr_data_loss = Some 0, rr_partial_batch_discarded = False, rr_error = None,
                    rr_can_resume = True \<rparr>, db')"
          using recover_unfold[OF hdb cc Some g1 rp(2,3) discarded(4)] .
        from 1 2 show ?thesis by (auto simp: failed_recovery_def split: sum.splits)
      qed
    qed
  qed
qed

text \<open>
  C8. With the SQLite wrapper as the handler's storage (and the checkpoint manager, if any,
  on the same wrapper or on no storage), for every state of the database the second of two
  consecutive \<open>recover\<close> calls returns the same \<open>resume_from\<close> and \<open>recovered_batches\<close> as
  the first, reports \<open>partial_batch_discarded = False\<close>, and leaves the database as the
  first call left it.
\<close>

theorem recover_idempotent:
  assumes "h_db h = Some Database_storage"
      and "\<forall>cm. h_checkpoint_manager h = Some cm \<longrightarrow>
             cm_db cm = None \<or> cm_db cm = Some Database_storage"
      and "recover h db = (r1, db1)"
      and "recover h db1 = (r2, db2)"
  shows "rr_resume_from r2 = rr_resume_from r1
         \<and> rr_recovered_batches r2 = rr_recovered_batches r1
         \<and> \<not> rr_partial_batch_discarded r2
         \<and> db2 = db1"
  using recover_Database_cases[OF assms(1,2), of db] assms(3,4) by auto

text \<open>A crash after \<open>batch_004\<close>: rows of \<open>batch_005\<close> and \<open>batch_006_partial\<close> are
  discarded by the first call, and the second call finds nothing to discard.\<close>

theorem recover_idempotent_witness:
  "recover \<lparr> h_checkpoint_manager = Some (CheckpointManager_init (Some Database_storage) None),
             h_db = Some Database_storage \<rparr>
      \<lparr> documents_table =
          [\<lparr> row_id = PStr ''d1'', row_content = PStr ''a'', row_batch_id = ''batch_003'' \<rparr>,
           \<lparr> row_id = PStr ''d2'', row_content = PStr ''b'', row_batch_id = ''batch_004'' \<rparr>,
           \<lparr> row_id = PStr ''d3'', row_content = PStr ''c'', row_batch_id = ''batch_005'' \<rparr>,
           \<lparr> row_id = PStr ''d4'', row_content = PStr ''d'', row_batch_id = ''batch_006_partial'' \<rparr>],
        checkpoints_table =
          [\<lparr> ck_last_batch_id = PStr ''batch_004'', ck_total_persisted = PInt 400,
             ck_status = PStr ''committed'', ck_timestamp = PStr ''t4'' \<rparr>],
        closed = False, current_timestamp = ''t9'' \<rparr>
     = (\<lparr> rr_success = True, rr_recovered_batches = 4, rr_resume_from = Some ''batch_005'',
           rr_data_loss = Some 0, rr_partial_batch_discarded = True, rr_error = None,
           rr_can_resume = True \<rparr>,
        \<lparr> documents_table =
          [\<lparr> row_id = PStr ''d1'', row_content = PStr ''a'', row_batch_id = ''batch_003'' \<rparr>,
           \<lparr> row_id = PStr ''d2'', row_content = PStr ''b'', row_batch_id = ''batch_004'' \<rparr>],
        checkpoints_table =
          [\<lparr> ck_last_batch_id = PStr ''batch_004'', ck_total_persisted = PInt 400,
             ck_status = PStr ''committed'', ck_timestamp = PStr ''t4'' \<rparr>],
        closed = False, current_timestamp = ''t9'' \<rparr>)
   \<and> recover \<lparr> h_checkpoint_manager = Some (CheckpointManager_init (Some Database_storage) None),
             h_db = Some Database_storage \<rparr>
      \<lparr> documents_table =
          [\<lparr> row_id = PStr ''d1'', row_content = PStr ''a'', row_batch_id = ''batch_003'' \<rparr>,
           \<lparr> row_id = PStr ''d2'', row_content = PStr ''b'', row_batch_id = ''batch_004'' \<rparr>],
        checkpoints_table =
          [\<lparr> ck_last_batch_id = PStr ''batch_004'', ck_total_persisted = PInt 400,
             ck_status = PStr ''committed'', ck_timestamp = PStr ''t4'' \<rparr>],
        closed = False, current_timestamp = ''t9'' \<rparr>
     = (\<lparr> rr_success = True, rr_recovered_batches = 4, rr_resume_from = Some ''batch_005'',
           rr_data_loss = Some 0, rr_partial_batch_discarded = False, rr_error = None,
           rr_can_resume = True \<rparr>,
        \<lparr> documents_table =
          [\<lparr> row_id = PStr ''d1'', row_content = PStr ''a'', row_batch_id = ''batch_003'' \<rparr>,
           \<lparr> row_id = PStr ''d2'', row_content = PStr ''b'', row_batch_id = ''batch_004'' \<rparr>],
        checkpoints_table =
          [\<lparr> ck_last_batch_id = PStr ''batch_004'', ck_total_persisted = PInt 400,
             ck_status = PStr ''committed'', ck_timestamp = PStr ''t4'' \<rparr>],
        closed = False, current_timestamp = ''t9'' \<rparr>)"
proof -
  let ?h = "\<lparr> h_checkpoint_manager = Some (CheckpointManager_init (Some Database_storage) None),
             h_db = Some Database_storage \<rparr>"
  let ?ck = "[\<lparr> ck_last_batch_id = PStr ''batch_004'', ck_total_persisted = PInt 400,
             ck_status = PStr ''committed'', ck_timestamp = PStr ''t4'' \<rparr>]"
  let ?keep = "[\<lparr> row_id = PStr ''d1'', row_content = PStr ''a'', row_batch_id = ''batch_003'' \<rparr>,
           \<lparr> row_id = PStr ''d2'', row_content = PStr ''b'', row_batch_id = ''batch_004'' \<rparr>]"
  let ?db0 = "\<lparr> documents_table = ?keep @
          [\<lparr> row_id = PStr ''d3'', row_content = PStr ''c'', row_batch_id = ''batch_005'' \<rparr>,
           \<lparr> row_id = PStr ''d4'', row_content = PStr ''d'', row_batch_id = ''batch_006_partial'' \<rparr>],
        checkpoints_table = ?ck, closed = False, current_timestamp = ''t9'' \<rparr>"
  let ?db1 = "\<lparr> documents_table = ?keep, checkpoints_table = ?ck, closed = False,
                current_timestamp = ''t9'' \<rparr>"
  have first: "recover ?h ?db0
     = (\<lparr> rr_success = True, rr_recovered_batches = 4, rr_resume_from = Some ''batch_005'',
           rr_data_loss = Some 0, rr_partial_batch_discarded = True, rr_error = None,
           rr_can_resume = True \<rparr>, ?db1)"
    by code_simp
  have h1: "h_db ?h = Some Database_storage" by simp
  have h2: "\<forall>cm. h_checkpoint_manager ?h = Some cm \<longrightarrow>
             cm_db cm = None \<or> cm_db cm = Some Database_storage"
    by (simp add: CheckpointManager_init_def)
  have second0: "recover ?h ?db1 = (fst (recover ?h ?db1), snd (recover ?h ?db1))" by simp
  note T = recover_idempotent[OF h1 h2 first second0]
  have s: "rr_success (fst (recover ?h ?db1)) = True
           \<and> rr_data_loss (fst (recover ?h ?db1)) = Some 0
           \<and> rr_error (fst (recover ?h ?db1)) = None
           \<and> rr_can_resume (fst (recover ?h ?db1)) = True"
    by code_simp
  have "fst (recover ?h ?db1)
          = \<lparr> rr_success = True, rr_recovered_batches = 4, rr_resume_from = Some ''batch_005'',
           rr_data_loss = Some 0, rr_partial_batch_discarded = False, rr_error = None,
           rr_can_resume = True \<rparr>"
    using T s by (cases "fst (recover ?h ?db1)") simp
  moreover have "snd (recover ?h ?db1) = ?db1" using T by simp
  ultimately have second: "recover ?h ?db1
     = (\<lparr> rr_success = True, rr_recovered_batches = 4, rr_resume_from = Some ''batch_005'',
           rr_data_loss = Some 0, rr_partial_batch_discarded = False, rr_error = None,
           rr_can_resume = True \<rparr>, ?db1)"
    by (metis prod.collapse)
  show ?thesis using first second by simp
qed

end
